theory Spec2Isabelle
  imports Complex_Main "HOL-Library.Multiset" "HOL-Library.AList" "HOL-Library.Char_ord"
    "HOL-Library.List_Lexorder" "HOL-Library.Product_Lexorder"
begin

section \<open>Numeric cells\<close>

text \<open>
  The script \<^verbatim>\<open>00_prepare_base_panel_v2.py\<close> computes on pandas columns of dtype
  float64. A cell is a finite number, one of the two infinities, or NaN, which pandas
  reads as the missing value (\<^verbatim>\<open>isna\<close>, \<^verbatim>\<open>fillna\<close>, the skipping sums). The
  operations below follow IEEE 754 on the special values and are exact on finite ones:
  rounding, overflow and the sign of zero are not represented.
\<close>

datatype fval = NaN | PInf | NInf | Fin real

fun isna :: "fval \<Rightarrow> bool" where
  "isna NaN = True"
| "isna _ = False"


fun fneg :: "fval \<Rightarrow> fval" where
  "fneg NaN = NaN"
| "fneg PInf = NInf"
| "fneg NInf = PInf"
| "fneg (Fin x) = Fin (- x)"

fun fadd :: "fval \<Rightarrow> fval \<Rightarrow> fval" where
  "fadd NaN _ = NaN"
| "fadd _ NaN = NaN"
| "fadd PInf NInf = NaN"
| "fadd NInf PInf = NaN"
| "fadd PInf _ = PInf"
| "fadd _ PInf = PInf"
| "fadd NInf _ = NInf"
| "fadd _ NInf = NInf"
| "fadd (Fin x) (Fin y) = Fin (x + y)"

definition fsub :: "fval \<Rightarrow> fval \<Rightarrow> fval" where
  "fsub a b = fadd a (fneg b)"

text \<open>An infinity keeps or flips its sign with the sign of the finite factor; times zero it is NaN.\<close>

definition inf_signed :: "fval \<Rightarrow> real \<Rightarrow> fval" where
  "inf_signed i y = (if y = 0 then NaN else if 0 < y then i else fneg i)"

fun fmul :: "fval \<Rightarrow> fval \<Rightarrow> fval" where
  "fmul NaN _ = NaN"
| "fmul _ NaN = NaN"
| "fmul (Fin x) (Fin y) = Fin (x * y)"
| "fmul (Fin x) i = inf_signed i x"
| "fmul i (Fin y) = inf_signed i y"
| "fmul PInf PInf = PInf"
| "fmul NInf NInf = PInf"
| "fmul PInf NInf = NInf"
| "fmul NInf PInf = NInf"

text \<open>
  Division of float64 columns never raises: a finite nonzero number over zero is an
  infinity, zero over zero and infinity over infinity are NaN, a finite number over an
  infinity is zero.
\<close>

fun fdiv :: "fval \<Rightarrow> fval \<Rightarrow> fval" where
  "fdiv NaN _ = NaN"
| "fdiv _ NaN = NaN"
| "fdiv (Fin x) (Fin y) =
     (if y \<noteq> 0 then Fin (x / y)
      else if x = 0 then NaN else if 0 < x then PInf else NInf)"
| "fdiv (Fin x) _ = Fin 0"
| "fdiv i (Fin y) = (if 0 \<le> y then i else fneg i)"
| "fdiv _ _ = NaN"

text \<open>Comparison with a number: NaN compares false.\<close>

fun fgt :: "fval \<Rightarrow> real \<Rightarrow> bool" where
  "fgt NaN _ = False"
| "fgt PInf _ = True"
| "fgt NInf _ = False"
| "fgt (Fin x) c = (c < x)"

text \<open>\<^verbatim>\<open>Series.fillna(c)\<close>, cell by cell.\<close>

fun fillna :: "real \<Rightarrow> fval \<Rightarrow> fval" where
  "fillna c NaN = Fin c"
| "fillna c v = v"

text \<open>\<^verbatim>\<open>Series.replace({0: np.nan})\<close>, cell by cell.\<close>

fun replace_zero :: "fval \<Rightarrow> fval" where
  "replace_zero (Fin x) = (if x = 0 then NaN else Fin x)"
| "replace_zero v = v"

text \<open>
  The sum of a group as \<^verbatim>\<open>groupby(...).sum()\<close> takes it: missing cells are skipped,
  and a group with none left sums to 0.
\<close>

definition sum_skipna :: "fval list \<Rightarrow> fval" where
  "sum_skipna vs = foldl fadd (Fin 0) (filter (\<lambda>v. \<not> isna v) vs)"

text \<open>
  The mean of a group as \<^verbatim>\<open>groupby(...).mean()\<close> takes it: over the cells that are
  not missing, and missing when there is none.
\<close>

definition mean_skipna :: "fval list \<Rightarrow> fval" where
  "mean_skipna vs =
     (let ws = filter (\<lambda>v. \<not> isna v) vs
      in if ws = [] then NaN else fdiv (foldl fadd (Fin 0) ws) (Fin (real (length ws))))"

section \<open>Deflation\<close>

text \<open>
  Every deflation of the script is the same column expression,
  \<^verbatim>\<open>nominal / (CPI_index/100.0)\<close> (lines 184, 239, 263, 271 and 320).
\<close>

definition deflate :: "fval \<Rightarrow> fval \<Rightarrow> fval" where
  "deflate nominal cpi_index = fdiv nominal (fdiv cpi_index (Fin 100))"


section \<open>Strings\<close>

text \<open>
  Python strings are modelled on ASCII: \<^verbatim>\<open>lower\<close>, \<^verbatim>\<open>title\<close> and
  \<^verbatim>\<open>strip\<close> act on the letters A to Z and a to z and on the ASCII white space.
\<close>

definition is_upper :: "char \<Rightarrow> bool" where
  "is_upper c = (CHR ''A'' \<le> c \<and> c \<le> CHR ''Z'')"

definition is_lower :: "char \<Rightarrow> bool" where
  "is_lower c = (CHR ''a'' \<le> c \<and> c \<le> CHR ''z'')"

definition lower_char :: "char \<Rightarrow> char" where
  "lower_char c = (if is_upper c then char_of (of_char c + (32::nat)) else c)"

definition upper_char :: "char \<Rightarrow> char" where
  "upper_char c = (if is_lower c then char_of (of_char c - (32::nat)) else c)"

definition lower :: "string \<Rightarrow> string" where
  "lower s = map lower_char s"

definition is_space :: "char \<Rightarrow> bool" where
  "is_space c = (let n = (of_char c :: nat) in (9 \<le> n \<and> n \<le> 13) \<or> (28 \<le> n \<and> n \<le> 32))"

definition strip :: "string \<Rightarrow> string" where
  "strip s = rev (dropWhile is_space (rev (dropWhile is_space s)))"

text \<open>
  \<^verbatim>\<open>str.title()\<close>: a letter that follows a letter is lowered, a letter that does not
  is raised. The flag says whether the previous character was a letter.
\<close>

fun title_from :: "bool \<Rightarrow> string \<Rightarrow> string" where
  "title_from prev [] = []"
| "title_from prev (c # cs) =
     (if is_lower c then (if prev then c else upper_char c) # title_from True cs
      else if is_upper c then (if prev then lower_char c else c) # title_from True cs
      else c # title_from False cs)"

definition title :: "string \<Rightarrow> string" where
  "title s = title_from False s"

text \<open>\<^verbatim>\<open>needle in s\<close>, and \<^verbatim>\<open>str.contains\<close> for a pattern without metacharacters.\<close>

fun contains :: "string \<Rightarrow> string \<Rightarrow> bool" where
  "contains [] needle = (needle = [])"
| "contains (c # cs) needle = (take (length needle) (c # cs) = needle \<or> contains cs needle)"

section \<open>Geography\<close>

definition included_geo :: "string list" where
  "included_geo =
     [''Alberta'', ''British Columbia'', ''Manitoba'', ''New Brunswick'',
      ''Newfoundland And Labrador'', ''Nova Scotia'', ''Ontario'', ''Quebec'',
      ''Saskatchewan'']"

definition aliases :: "(string \<times> string) list" where
  "aliases =
     [(''Nfld.'', ''Newfoundland And Labrador''),
      (''Nwt'', ''Northwest Territories''),
      (''B.C.'', ''British Columbia''),
      (''P.E.I.'', ''Prince Edward Island'')]"

definition normalize_province :: "string \<Rightarrow> string" where
  "normalize_province prov =
     (let p = title (strip prov)
      in case map_of aliases p of Some full \<Rightarrow> full | None \<Rightarrow> p)"

text \<open>
  Rows of the province-keyed tables. \<open>Year\<close> is what the script reads off
  \<^verbatim>\<open>REF_DATE\<close>: an \<open>int\<close> where it converts with \<^verbatim>\<open>astype(int)\<close>, an
  \<open>int option\<close> for the nullable \<^verbatim>\<open>Int64\<close> column of the GDP tables (lines 149,
  150, 206 and 207), where a date that is not a number is \<open>None\<close>. \<open>Province\<close>
  is the column \<^verbatim>\<open>apply_geo_filter\<close> writes. \<open>Sector\<close> is the sector column
  of the tables that have one, of type \<open>string\<close>; in a table without a sector
  column its type is \<open>unit\<close>.
\<close>

record ('y, 's) keyed =
  Year :: 'y
  Province :: string
  Sector :: 's

definition key :: "(int, 's, 'a) keyed_scheme \<Rightarrow> int \<times> string" where
  "key r = (Year r, Province r)"

text \<open>\<^verbatim>\<open>Series.between(lo, hi)\<close>, both ends included.\<close>

definition between :: "int \<Rightarrow> int \<Rightarrow> int \<Rightarrow> bool" where
  "between lo hi y = (lo \<le> y \<and> y \<le> hi)"

text \<open>
  \<^verbatim>\<open>apply_geo_filter\<close>, on a table whose geography column is \<^verbatim>\<open>GEO\<close>: the
  normalised label is written to \<open>Province\<close> and the rows outside the admitted
  provinces are dropped. (The \<^verbatim>\<open>ValueError\<close> of a table with no geography
  column is not modelled: every row type below has one.)
\<close>

text \<open>
  The columns every Statistics Canada table has. \<open>VALUE\<close> is the column as
  \<^verbatim>\<open>pd.to_numeric(..., errors="coerce")\<close> reads it, a text that is no number being
  missing; \<open>VALUE_DOLLARS\<close> is the column \<^verbatim>\<open>add_dollar_value\<close> writes.
\<close>

record ('y, 's) raw_row = "('y, 's) keyed" +
  GEO :: string
  SCALAR_FACTOR :: "string option"
  VALUE :: fval
  VALUE_DOLLARS :: fval

definition apply_geo_filter :: "('y, 's, 'a) raw_row_scheme list \<Rightarrow> ('y, 's, 'a) raw_row_scheme list" where
  "apply_geo_filter df =
     filter (\<lambda>r. Province r \<in> set included_geo)
       (map (\<lambda>r. r\<lparr>Province := normalize_province (GEO r)\<rparr>) df)"

section \<open>Errors\<close>

text \<open>The exceptions the script can raise, as values.\<close>

datatype error = IndexError | AssertionError | ValueError | KeyError

section \<open>Employment\<close>


text \<open>The labour force survey and the population table carry a gender and an age group.\<close>

record demo_row = "(int, unit) raw_row" +
  Gender :: string
  Age_group :: string

record lfs_row = demo_row +
  Labour_force_characteristics :: string
  Employment :: fval

text \<open>Lines 399 to 403: the rows kept of the labour force survey.\<close>

definition lfs_filter :: "lfs_row list \<Rightarrow> lfs_row list" where
  "lfs_filter df =
     filter (\<lambda>r. strip (lower (Labour_force_characteristics r)) = ''employment'' \<and>
                 strip (lower (Gender r)) = ''total - gender'' \<and>
                 contains (lower (Age_group r)) ''15 years'') df"

text \<open>
  Lines 404 to 407. \<^verbatim>\<open>iloc[0]\<close> raises \<^verbatim>\<open>IndexError\<close> on a table with no
  row. A missing scale tag stays missing under \<^verbatim>\<open>.str.lower()\<close> and compares
  unequal to \<^verbatim>\<open>"thousands"\<close>.
\<close>

definition lfs_scale :: "lfs_row list \<Rightarrow> error + lfs_row list" where
  "lfs_scale df =
     (case df of
        [] \<Rightarrow> Inl IndexError
      | r0 # _ \<Rightarrow>
          if map_option lower (SCALAR_FACTOR r0) = Some ''thousands''
          then Inr (map (\<lambda>r. r\<lparr>Employment := fmul (VALUE r) (Fin 1000)\<rparr>) df)
          else Inr (map (\<lambda>r. r\<lparr>Employment := VALUE r\<rparr>) df))"

definition lfs_employment :: "lfs_row list \<Rightarrow> error + lfs_row list" where
  "lfs_employment raw = lfs_scale (lfs_filter (apply_geo_filter raw))"

definition lfs_demo :: "lfs_row list" where
  "lfs_demo =
     [\<lparr>Year = 1976, Province = [], Sector = (), GEO = ''alberta '', SCALAR_FACTOR = Some ''Thousands'',
       VALUE = Fin 812, VALUE_DOLLARS = NaN, Gender = ''Total - Gender'',
       Age_group = ''15 years and over'',
       Labour_force_characteristics = ''Employment'', Employment = NaN\<rparr>,
      \<lparr>Year = 1976, Province = [], Sector = (), GEO = ''Yukon'', SCALAR_FACTOR = Some ''units'',
       VALUE = Fin 9, VALUE_DOLLARS = NaN, Gender = ''Total - Gender'',
       Age_group = ''15 years and over'',
       Labour_force_characteristics = ''Employment'', Employment = NaN\<rparr>,
      \<lparr>Year = 1976, Province = [], Sector = (), GEO = ''Ontario'', SCALAR_FACTOR = Some ''units'',
       VALUE = Fin 3700, VALUE_DOLLARS = NaN, Gender = ''Total - Gender'',
       Age_group = ''15 years and over'',
       Labour_force_characteristics = ''Employment'', Employment = NaN\<rparr>]"

section \<open>Event-study annotator\<close>

text \<open>
  \<^verbatim>\<open>add_event_vars\<close> (lines 592 to 601) writes columns into a frame. The frame is
  modelled by its rows (year and province) and by the ordered list of the columns the
  annotator writes, each a name with one cell per row; \<^verbatim>\<open>df[col] = ...\<close> replaces
  the column of that name or appends a new one, as \<open>AList.update\<close> does. The
  treated, post and relative-time cells are given per row; the bins are read off the
  relative-time column, as the loop does. \<open>str_nat\<close> is the decimal rendering of
  \<^verbatim>\<open>abs(k)\<close> in the f-string.
\<close>

definition digit_char :: "nat \<Rightarrow> char" where
  "digit_char d = char_of (48 + d)"

fun str_nat :: "nat \<Rightarrow> string" where
  "str_nat n = (if n < 10 then [digit_char n] else str_nat (n div 10) @ [digit_char (n mod 10)])"

declare str_nat.simps [simp del]

datatype cell = I int | F fval

definition bin_col :: "string \<Rightarrow> int \<Rightarrow> string" where
  "bin_col name k = name @ ''_bin_'' @ (if k < 0 then ''m'' else ''p'') @ str_nat (nat \<bar>k\<bar>)"

definition event_treated :: "string list \<Rightarrow> (int, 's, 'a) keyed_scheme \<Rightarrow> int" where
  "event_treated treated r = (if Province r \<in> set treated then 1 else 0)"

definition event_post :: "int \<Rightarrow> string list \<Rightarrow> (int, 's, 'a) keyed_scheme \<Rightarrow> int" where
  "event_post year treated r = (if year \<le> Year r \<and> event_treated treated r = 1 then 1 else 0)"

definition event_rel :: "int \<Rightarrow> string list \<Rightarrow> (int, 's, 'a) keyed_scheme \<Rightarrow> fval" where
  "event_rel year treated r =
     (if event_treated treated r = 1 then Fin (of_int (Year r - year)) else NaN)"

definition rel_eq :: "fval \<Rightarrow> int \<Rightarrow> int" where
  "rel_eq v k = (if v = Fin (of_int k) then 1 else 0)"

type_synonym columns = "(string \<times> cell list) list"

fun event_bins :: "string \<Rightarrow> fval list \<Rightarrow> int list \<Rightarrow> columns \<Rightarrow> columns" where
  "event_bins name rel [] df = df"
| "event_bins name rel (k # ks) df =
     (if k = - 1 then event_bins name rel ks df
      else event_bins name rel ks
             (AList.update (bin_col name k) (map (\<lambda>v. I (rel_eq v k)) rel) df))"

definition add_event_vars ::
  "(int, 's, 'a) keyed_scheme list \<Rightarrow> columns \<Rightarrow> string \<Rightarrow> int \<Rightarrow> string list \<Rightarrow> int \<Rightarrow> columns" where
  "add_event_vars rows df name year treated window =
     (let df1 = AList.update (name @ ''_treated'') (map (\<lambda>r. I (event_treated treated r)) rows) df;
          df2 = AList.update (name @ ''_post'') (map (\<lambda>r. I (event_post year treated r)) rows) df1;
          rel = map (event_rel year treated) rows;
          df3 = AList.update (name @ ''_rel'') (map F rel) df2
      in event_bins name rel [- window..window] df3)"

text \<open>The offsets at which the loop assigns a column: \<^verbatim>\<open>range(-window, window+1)\<close> without \<open>-1\<close>.\<close>

definition bin_offsets :: "int \<Rightarrow> int list" where
  "bin_offsets window = filter (\<lambda>k. k \<noteq> - 1) [- window..window]"

definition EVENTS :: "(string \<times> int \<times> string list \<times> int) list" where
  "EVENTS =
     [(''NEP'', 1980, [''Alberta''], 6),
      (''CROW'', 1984, [''Alberta'', ''Saskatchewan'', ''Manitoba''], 6),
      (''CUSFTA'', 1989, [''Ontario'', ''Quebec''], 6),
      (''COD'', 1992, [''Newfoundland And Labrador''], 4)]"

definition event_demo_rows :: "(int, unit) keyed list" where
  "event_demo_rows =
     [\<lparr>Year = 1982, Province = ''Alberta'', Sector = ()\<rparr>, \<lparr>Year = 1979, Province = ''Alberta'', Sector = ()\<rparr>,
      \<lparr>Year = 1982, Province = ''Ontario'', Sector = ()\<rparr>]"

section \<open>Tables\<close>

text \<open>
  A table is the list of its rows, in row order. \<open>unique\<close> keeps the first occurrence
  of every element, in order of first occurrence (\<^verbatim>\<open>groupby(..., sort=False)\<close>,
  \<^verbatim>\<open>drop_duplicates(keep="first")\<close>).
\<close>

definition unique :: "'a list \<Rightarrow> 'a list" where
  "unique xs = rev (remdups (rev xs))"

text \<open>
  \<^verbatim>\<open>left.merge(right, on=..., how="left")\<close> and SQL's \<^verbatim>\<open>LEFT JOIN\<close>: every left row,
  in order, once with each right row of its key, or once with nothing when no right row
  has its key.
\<close>

definition merge_left ::
  "('l \<Rightarrow> 'k) \<Rightarrow> ('r \<Rightarrow> 'k) \<Rightarrow> 'l list \<Rightarrow> 'r list \<Rightarrow> ('l \<times> 'r option) list" where
  "merge_left kl kr ls rs =
     concat (map (\<lambda>l. case filter (\<lambda>r. kr r = kl l) rs of
                          [] \<Rightarrow> [(l, None)]
                        | ms \<Rightarrow> map (\<lambda>r. (l, Some r)) ms) ls)"

text \<open>The first error of a sequence of results, or all their rows.\<close>

fun collect :: "(error + 'a list) list \<Rightarrow> error + 'a list" where
  "collect [] = Inr []"
| "collect (Inl e # rest) = Inl e"
| "collect (Inr xs # rest) = (case collect rest of Inl e \<Rightarrow> Inl e | Inr ys \<Rightarrow> Inr (xs @ ys))"

section \<open>Unit scaler\<close>

definition SCALE_MAP :: "(string \<times> real) list" where
  "SCALE_MAP = [(''units'', 1), (''thousands'', 1000), (''millions'', 1000000)]"

definition scale_mult :: "string option \<Rightarrow> real" where
  "scale_mult tag =
     (case tag of
        None \<Rightarrow> 1
      | Some t \<Rightarrow> (case map_of SCALE_MAP (lower t) of Some m \<Rightarrow> m | None \<Rightarrow> 1))"

definition add_dollar_value :: "('y, 's, 'a) raw_row_scheme list \<Rightarrow> ('y, 's, 'a) raw_row_scheme list" where
  "add_dollar_value df =
     map (\<lambda>r. r\<lparr>VALUE_DOLLARS := fmul (VALUE r) (Fin (scale_mult (SCALAR_FACTOR r)))\<rparr>) df"

section \<open>Consumer price index\<close>

record cpi_row = "(int, unit) raw_row" +
  Products :: string

record 's cpi_cols = "(int, 's) keyed" +
  CPI_index :: fval

type_synonym cpi_idx = "unit cpi_cols"

text \<open>
  Lines 97 to 99: the province label is written on every row (no row is dropped here,
  the national rows stay), and the all-items rows are kept.
\<close>

definition cpi_all_items :: "cpi_row list \<Rightarrow> cpi_row list" where
  "cpi_all_items raw =
     filter (\<lambda>r. lower (Products r) = ''all-items'')
       (map (\<lambda>r. r\<lparr>Province := normalize_province (GEO r)\<rparr>) raw)"

text \<open>Lines 101 to 104: the yearly mean of each admitted province, from 1978 on.\<close>

definition cpi_prov :: "cpi_row list \<Rightarrow> cpi_idx list" where
  "cpi_prov cpi =
     (let sel = filter (\<lambda>r. Province r \<in> set included_geo \<and> 1978 \<le> Year r) cpi
      in map (\<lambda>k. \<lparr>Year = fst k, Province = snd k, Sector = (),
                    CPI_index = mean_skipna (map VALUE (filter (\<lambda>r. key r = k) sel))\<rparr>)
           (sort (remdups (map key sel))))"

text \<open>Lines 105 to 108: the yearly mean of the national rows, 1975 to 1977.\<close>

definition cpi_canada_avg :: "cpi_row list \<Rightarrow> (int \<times> fval) list" where
  "cpi_canada_avg cpi =
     (let sel = filter (\<lambda>r. GEO r = ''Canada'' \<and> between 1975 1977 (Year r)) cpi
      in map (\<lambda>y. (y, mean_skipna (map VALUE (filter (\<lambda>r. Year r = y) sel))))
           (sort (remdups (map Year sel))))"

text \<open>Lines 109 to 111: the 1975 row is copied as 1974 ahead of the national means.\<close>

definition cpi_backfill_years :: "cpi_row list \<Rightarrow> (int \<times> fval) list" where
  "cpi_backfill_years cpi =
     (let avg = cpi_canada_avg cpi;
          cpi_1975 = filter (\<lambda>(y, v). y = 1975) avg;
          cpi_1974 = map (\<lambda>(y, v). (1974, v)) cpi_1975
      in cpi_1974 @ avg)"

text \<open>
  Line 112: the national rows once for each admitted province (the script walks a set,
  in no stated order; the list order of \<open>included_geo\<close> stands for it).
\<close>

definition cpi_backfilled :: "cpi_row list \<Rightarrow> cpi_idx list" where
  "cpi_backfilled cpi =
     concat (map (\<lambda>prov. map (\<lambda>(y, v). \<lparr>Year = y, Province = prov, Sector = (), CPI_index = v\<rparr>)
                            (cpi_backfill_years cpi)) included_geo)"

definition cpi_final :: "cpi_row list \<Rightarrow> cpi_idx list" where
  "cpi_final raw = (let cpi = cpi_all_items raw in cpi_prov cpi @ cpi_backfilled cpi)"

text \<open>The index a left merge on year and province brings to a row: missing without a match.\<close>

definition cpi_of :: "cpi_idx option \<Rightarrow> fval" where
  "cpi_of c = (case c of None \<Rightarrow> NaN | Some i \<Rightarrow> CPI_index i)"

section \<open>GDP by industry\<close>

record gdp_row = "(int option, unit) raw_row" +
  Prices :: string
  Industry :: string
  Estimates :: string

record nominal_row = "(int, unit) keyed" +
  GDP_Nominal :: fval

record 's real_row = "(int, 's) keyed" +
  GDP_Real :: fval

type_synonym sector_row = "string real_row"

definition SECTORS :: "(string \<times> string) list" where
  "SECTORS =
     [(''OIL_GAS'', ''Mining, quarrying and oil well industries''),
      (''REFINING'', ''Refined petroleum and coal products industries''),
      (''AGRIC'', ''Agricultural and related services industries''),
      (''FISH'', ''Fishing and trapping industries''),
      (''MANUFACT'', ''Manufacturing industries''),
      (''EDU'', ''Educational service industries'')]"

text \<open>
  A missing year fails \<^verbatim>\<open>between\<close>, so the rows of a block have a year; it is
  written as the \<open>int\<close> it becomes at line 438.
\<close>

definition extract_nominal_block :: "gdp_row list \<Rightarrow> string \<Rightarrow> int \<Rightarrow> int \<Rightarrow> nominal_row list" where
  "extract_nominal_block df industry y0 y1 =
     List.map_filter
       (\<lambda>r. case Year r of
               None \<Rightarrow> None
             | Some y \<Rightarrow>
                 if Prices r = ''Current dollars (1971 to 1984)'' \<and> Industry r = industry \<and>
                    between y0 y1 y
                 then Some \<lparr>Year = y, Province = Province r, Sector = (), GDP_Nominal = VALUE_DOLLARS r\<rparr>
                 else None) df"

definition extract_real_block :: "gdp_row list \<Rightarrow> string \<Rightarrow> int \<Rightarrow> int \<Rightarrow> unit real_row list" where
  "extract_real_block df industry y0 y1 =
     List.map_filter
       (\<lambda>r. case Year r of
               None \<Rightarrow> None
             | Some y \<Rightarrow>
                 if Prices r = ''1986 constant dollars'' \<and> Industry r = industry \<and>
                    between y0 y1 y
                 then Some \<lparr>Year = y, Province = Province r, Sector = (), GDP_Real = VALUE_DOLLARS r\<rparr>
                 else None) df"

text \<open>Lines 183 to 185: the early vintage, 1975 to 1983, deflated with the index.\<close>

definition sector_pre :: "gdp_row list \<Rightarrow> cpi_idx list \<Rightarrow> string \<Rightarrow> unit real_row list" where
  "sector_pre gdp80 cpi ind =
     map (\<lambda>(l, c). \<lparr>Year = Year l, Province = Province l, Sector = (),
                     GDP_Real = deflate (GDP_Nominal l) (cpi_of c)\<rparr>)
       (merge_left key key (extract_nominal_block gdp80 ind 1975 1983) cpi)"

text \<open>Line 186: the later vintage, 1984 to 1995, as reported.\<close>

definition sector_post :: "gdp_row list \<Rightarrow> string \<Rightarrow> unit real_row list" where
  "sector_post gdp90 ind = extract_real_block gdp90 ind 1984 1995"

text \<open>Line 188: the sector label is written on every row.\<close>

definition with_sector :: "string \<Rightarrow> unit real_row \<Rightarrow> sector_row" where
  "with_sector label r =
     \<lparr>Year = Year r, Province = Province r, Sector = label, GDP_Real = GDP_Real r\<rparr>"

definition build_sector ::
  "gdp_row list \<Rightarrow> gdp_row list \<Rightarrow> cpi_idx list \<Rightarrow> string \<Rightarrow> string \<Rightarrow> error + sector_row list" where
  "build_sector gdp80 gdp90 cpi sector_key label =
     (case map_of SECTORS sector_key of
        None \<Rightarrow> Inl KeyError
      | Some ind \<Rightarrow>
          Inr (map (with_sector label) (sector_pre gdp80 cpi ind @ sector_post gdp90 ind)))"

text \<open>Lines 146, 147 and 192 to 199.\<close>

definition gdp_sectors :: "gdp_row list \<Rightarrow> gdp_row list \<Rightarrow> cpi_idx list \<Rightarrow> error + sector_row list" where
  "gdp_sectors raw80 raw90 cpi =
     (let gdp80 = add_dollar_value (apply_geo_filter raw80);
          gdp90 = add_dollar_value (apply_geo_filter raw90)
      in collect
           [build_sector gdp80 gdp90 cpi ''OIL_GAS'' ''OIL_GAS'',
            build_sector gdp80 gdp90 cpi ''REFINING'' ''REFINING'',
            build_sector gdp80 gdp90 cpi ''AGRIC'' ''AGRIC'',
            build_sector gdp80 gdp90 cpi ''FISH'' ''FISH'',
            build_sector gdp80 gdp90 cpi ''MANUFACT'' ''MANUFACT'',
            build_sector gdp80 gdp90 cpi ''EDU'' ''EDU''])"

definition key3 :: "(int, string, 'a) keyed_scheme \<Rightarrow> int \<times> string \<times> string" where
  "key3 r = (Year r, Province r, Sector r)"

text \<open>
  Lines 450 to 454: one row for each key, in order of first occurrence, with the sum of
  the key's values that are not missing.
\<close>

definition gdp_sectors_dedup :: "sector_row list \<Rightarrow> sector_row list" where
  "gdp_sectors_dedup rows =
     map (\<lambda>k. \<lparr>Year = fst k, Province = fst (snd k), Sector = snd (snd k),
                GDP_Real = sum_skipna (map GDP_Real (filter (\<lambda>r. key3 r = k) rows))\<rparr>)
       (unique (map key3 rows))"

text \<open>A small input: mining in Alberta and in a territory, around the vintage boundary.\<close>

definition gdp_row_of :: "int option \<Rightarrow> string \<Rightarrow> string \<Rightarrow> string \<Rightarrow> real \<Rightarrow> gdp_row" where
  "gdp_row_of y geo prices industry v =
     \<lparr>Year = y, Province = [], Sector = (), GEO = geo, SCALAR_FACTOR = Some ''Millions'',
      VALUE = Fin v, VALUE_DOLLARS = NaN, Prices = prices, Industry = industry,
      Estimates = []\<rparr>"

definition raw80_demo :: "gdp_row list" where
  "raw80_demo =
     [gdp_row_of (Some 1983) ''Alberta'' ''Current dollars (1971 to 1984)''
        ''Mining, quarrying and oil well industries'' 9,
      gdp_row_of (Some 1984) ''Alberta'' ''Current dollars (1971 to 1984)''
        ''Mining, quarrying and oil well industries'' 10,
      gdp_row_of (Some 1983) ''Yukon'' ''Current dollars (1971 to 1984)''
        ''Mining, quarrying and oil well industries'' 1,
      gdp_row_of None ''Alberta'' ''Current dollars (1971 to 1984)''
        ''Mining, quarrying and oil well industries'' 2]"

definition raw90_demo :: "gdp_row list" where
  "raw90_demo =
     [gdp_row_of (Some 1983) ''Alberta'' ''1986 constant dollars''
        ''Mining, quarrying and oil well industries'' 7,
      gdp_row_of (Some 1984) ''Alberta'' ''1986 constant dollars''
        ''Mining, quarrying and oil well industries'' 8]"

definition cpi_demo :: "cpi_idx list" where
  "cpi_demo = [\<lparr>Year = 1983, Province = ''Alberta'', Sector = (), CPI_index = Fin 90\<rparr>]"

text \<open>A small consumer price table: national rows for 1975 and provincial rows for 1980.\<close>

definition cpi_row_of :: "int \<Rightarrow> string \<Rightarrow> string \<Rightarrow> real \<Rightarrow> cpi_row" where
  "cpi_row_of y geo products v =
     \<lparr>Year = y, Province = [], Sector = (), GEO = geo, SCALAR_FACTOR = Some ''units'', VALUE = Fin v,
      VALUE_DOLLARS = NaN, Products = products\<rparr>"

definition cpi_raw_demo :: "cpi_row list" where
  "cpi_raw_demo =
     [cpi_row_of 1975 ''Canada'' ''All-items'' 40,
      cpi_row_of 1975 ''Canada'' ''All-items'' 44,
      cpi_row_of 1975 ''Canada'' ''Food'' 99,
      cpi_row_of 1980 ''Alberta'' ''All-items'' 88,
      cpi_row_of 1980 ''Alberta'' ''All-items'' 90]"

section \<open>Compensation\<close>

text \<open>
  The wages table has a sector column of its own. \<open>comp_raw\<close> is the table after
  \<^verbatim>\<open>add_dollar_value(apply_geo_filter(...))\<close> and the year column (lines 296, 297).
\<close>

type_synonym comp_raw_row = "(int, string) raw_row"

definition COMP_INDMAP :: "(string \<times> string) list" where
  "COMP_INDMAP =
     [(''Labour income'', ''TOTAL''),
      (''Agriculture, fishing and trapping'', ''AG_FISH''),
      (''Mining, quarrying and oil wells'', ''OIL_GAS''),
      (''Refined petroleum and coal products industries'', ''REFINING''),
      (''Manufacturing'', ''MANUFACT''),
      (''Education and related services'', ''EDU'')]"

text \<open>Lines 308 and 309: the rows of a mapped sector, relabelled.\<close>

definition comp_mapped :: "comp_raw_row list \<Rightarrow> comp_raw_row list" where
  "comp_mapped comp_raw =
     List.map_filter
       (\<lambda>r. case map_of COMP_INDMAP (Sector r) of
               None \<Rightarrow> None
             | Some s \<Rightarrow> Some (r\<lparr>Sector := s\<rparr>)) comp_raw"

record comp_annual_row = "string cpi_cols" +
  Comp_Nominal :: fval
  Comp_Real :: fval

text \<open>
  Lines 314 to 320: the monthly values are summed by year, province and sector (keys in
  sorted order), the index is merged on year and province, and the sum is deflated.
\<close>

definition comp_annual :: "comp_raw_row list \<Rightarrow> cpi_idx list \<Rightarrow> comp_annual_row list" where
  "comp_annual comp_tab cpi =
     (let totals = map (\<lambda>k. (k, sum_skipna (map VALUE_DOLLARS (filter (\<lambda>r. key3 r = k) comp_tab))))
                   (sort (remdups (map key3 comp_tab)))
      in map (\<lambda>((k, nominal), c).
                \<lparr>Year = fst k, Province = fst (snd k), Sector = snd (snd k),
                 CPI_index = cpi_of c, Comp_Nominal = nominal,
                 Comp_Real = deflate nominal (cpi_of c)\<rparr>)
           (merge_left (\<lambda>(k, nominal). (fst k, fst (snd k))) key totals cpi))"

record agfish_row = "(int, unit) keyed" +
  Comp_AF_Real :: fval

text \<open>Lines 339 to 343.\<close>

definition comp_agfish :: "comp_annual_row list \<Rightarrow> agfish_row list" where
  "comp_agfish ca =
     map (\<lambda>r. \<lparr>Year = Year r, Province = Province r, Sector = (), Comp_AF_Real = Comp_Real r\<rparr>)
       (filter (\<lambda>r. Sector r = ''AG_FISH'') ca)"

text \<open>\<^verbatim>\<open>aggfunc="first"\<close>: the first value of a group that is not missing.\<close>

definition first_valid :: "fval list \<Rightarrow> fval" where
  "first_valid vs = (case filter (\<lambda>v. \<not> isna v) vs of [] \<Rightarrow> NaN | v # _ \<Rightarrow> v)"

text \<open>
  The cell of the pivot table (lines 346 to 349) for a sector and a key: the first GDP
  value of the sector at that year and province that is not missing, or missing.
\<close>

definition gdp_figure :: "sector_row list \<Rightarrow> string \<Rightarrow> int \<times> string \<Rightarrow> fval" where
  "gdp_figure gs sector k =
     first_valid (map GDP_Real (filter (\<lambda>r. Sector r = sector \<and> key r = k) gs))"

text \<open>
  The index of the pivot table: \<^verbatim>\<open>pivot_table\<close> drops the groups whose aggregate is
  missing, so a key stays when one of its two cells is not missing; keys are sorted.
\<close>

definition w_keys :: "sector_row list \<Rightarrow> (int \<times> string) list" where
  "w_keys gs =
     sort (remdups (map key
       (filter (\<lambda>r. (Sector r = ''AGRIC'' \<or> Sector r = ''FISH'') \<and>
                     \<not> isna (gdp_figure gs (Sector r) (key r))) gs)))"

text \<open>
  Lines 350 to 360, for one key of the pivot table: a missing cell, and a column that is
  absent, count as 0.0; the weights are the shares of the sum where the sum is greater
  than zero and missing elsewhere.
\<close>

definition weights_of :: "sector_row list \<Rightarrow> int \<times> string \<Rightarrow> fval \<times> fval" where
  "weights_of gs k =
     (let AGRIC = fillna 0 (gdp_figure gs ''AGRIC'' k);
          FISH = fillna 0 (gdp_figure gs ''FISH'' k);
          wsum = fadd AGRIC FISH
      in (if fgt wsum 0 then fdiv AGRIC wsum else NaN,
          if fgt wsum 0 then fdiv FISH wsum else NaN))"

text \<open>Line 363: the weight table, each row a key with \<open>w_ag\<close> and \<open>w_fi\<close>.\<close>

definition w_table :: "sector_row list \<Rightarrow> ((int \<times> string) \<times> fval \<times> fval) list" where
  "w_table gs = map (\<lambda>k. (k, weights_of gs k)) (w_keys gs)"

record alloc_row = agfish_row +
  w_ag :: fval
  w_fi :: fval

text \<open>Lines 366 to 368: the weights are merged on the key and a missing weight is 0.5.\<close>

definition alloc :: "agfish_row list \<Rightarrow> ((int \<times> string) \<times> fval \<times> fval) list \<Rightarrow> alloc_row list" where
  "alloc af w =
     map (\<lambda>(l, m).
            \<lparr>Year = Year l, Province = Province l, Sector = (), Comp_AF_Real = Comp_AF_Real l,
             w_ag = fillna (1 / 2) (case m of None \<Rightarrow> NaN | Some (k, a, f) \<Rightarrow> a),
             w_fi = fillna (1 / 2) (case m of None \<Rightarrow> NaN | Some (k, a, f) \<Rightarrow> f)\<rparr>)
       (merge_left key fst af w)"

record comp_sect_row = "(int, string) keyed" +
  Comp_Real_Sector :: fval

text \<open>Lines 370 to 379.\<close>

definition comp_ag :: "alloc_row list \<Rightarrow> comp_sect_row list" where
  "comp_ag al =
     map (\<lambda>a. \<lparr>Year = Year a, Province = Province a, Sector = ''AGRIC'',
                Comp_Real_Sector = fmul (Comp_AF_Real a) (w_ag a)\<rparr>) al"

definition comp_fi :: "alloc_row list \<Rightarrow> comp_sect_row list" where
  "comp_fi al =
     map (\<lambda>a. \<lparr>Year = Year a, Province = Province a, Sector = ''FISH'',
                Comp_Real_Sector = fmul (Comp_AF_Real a) (w_fi a)\<rparr>) al"

text \<open>Lines 331 to 336: the sectors that match a GDP label one to one.\<close>

definition comp_match :: "comp_annual_row list \<Rightarrow> comp_sect_row list" where
  "comp_match ca =
     map (\<lambda>r. \<lparr>Year = Year r, Province = Province r, Sector = Sector r,
                Comp_Real_Sector = Comp_Real r\<rparr>)
       (filter (\<lambda>r. Sector r \<in> set [''OIL_GAS'', ''REFINING'', ''MANUFACT'', ''EDU'']) ca)"

text \<open>Line 382, from the sector GDP table before its deduplication and the annual table.\<close>

definition comp_sect :: "sector_row list \<Rightarrow> comp_annual_row list \<Rightarrow> comp_sect_row list" where
  "comp_sect gs ca =
     (let al = alloc (comp_agfish ca) (w_table gs)
      in comp_match ca @ comp_ag al @ comp_fi al)"



section \<open>Total GDP\<close>

text \<open>
  \<^verbatim>\<open>_find_col\<close>, on the column names of a table: the names are entered into a
  dictionary under their lower-cased form, and the needles are tried in order, each on
  the keys in order.
\<close>

definition find_col :: "string list \<Rightarrow> string list \<Rightarrow> string option" where
  "find_col cols needles =
     (let low = foldl (\<lambda>d c. AList.update (lower c) c d) [] cols
      in case List.find (\<lambda>(n, k, c). contains k n)
                (concat (map (\<lambda>n. map (\<lambda>(k, c). (n, k, c)) low) needles)) of
           None \<Rightarrow> None
         | Some (n, k, c) \<Rightarrow> Some c)"

text \<open>
  The pattern \<^verbatim>\<open>a.*b\<close> searched in a text: \<open>a\<close> somewhere, and \<open>b\<close> after it
  before the line ends.
\<close>

fun contains_then :: "string \<Rightarrow> string \<Rightarrow> string \<Rightarrow> bool" where
  "contains_then [] a b = (a = [] \<and> b = [])"
| "contains_then (c # cs) a b =
     ((take (length a) (c # cs) = a \<and>
       contains (takeWhile (\<lambda>x. x \<noteq> CHR 0x0A) (drop (length a) (c # cs))) b) \<or>
      contains_then cs a b)"

text \<open>\<^verbatim>\<open>_gdp_market_prices_mask\<close>, on the concept column (the field \<open>Estimates\<close>).\<close>

definition gdp_market_prices_mask :: "gdp_row \<Rightarrow> bool" where
  "gdp_market_prices_mask r =
     contains_then (lower (Estimates r)) ''gross domestic product'' ''market prices''"

record total_row = "(int, unit) keyed" +
  GDP_Real_Total :: fval

text \<open>\<^verbatim>\<open>drop_duplicates(keys, keep="first")\<close>: a row stays when no earlier row has its key.\<close>

fun drop_duplicates_seen :: "('a \<Rightarrow> 'k) \<Rightarrow> 'k list \<Rightarrow> 'a list \<Rightarrow> 'a list" where
  "drop_duplicates_seen f seen [] = []"
| "drop_duplicates_seen f seen (x # xs) =
     (if f x \<in> set seen then drop_duplicates_seen f seen xs
      else x # drop_duplicates_seen f (f x # seen) xs)"

definition drop_duplicates :: "('a \<Rightarrow> 'k) \<Rightarrow> 'a list \<Rightarrow> 'a list" where
  "drop_duplicates f xs = drop_duplicates_seen f [] xs"

text \<open>Lines 249 and 250: the rows of 1981 to 1995 of the concept, with their year.\<close>

definition total_slice :: "gdp_row list \<Rightarrow> (int \<times> gdp_row) list" where
  "total_slice df90 =
     List.map_filter
       (\<lambda>r. case Year r of
               None \<Rightarrow> None
             | Some y \<Rightarrow> if between 1981 1995 y \<and> gdp_market_prices_mask r
                        then Some (y, r) else None) df90"

definition is_real :: "gdp_row \<Rightarrow> bool" where
  "is_real r = (contains (lower (Prices r)) ''constant'' \<or> contains (lower (Prices r)) ''chained'')"

definition is_current :: "gdp_row \<Rightarrow> bool" where
  "is_current r = contains (lower (Prices r)) ''current''"

text \<open>Lines 256 and 257: the rows on a real basis, as reported.\<close>

definition part_real :: "(int \<times> gdp_row) list \<Rightarrow> total_row list" where
  "part_real sl =
     map (\<lambda>(y, r). \<lparr>Year = y, Province = Province r, Sector = (),
                     GDP_Real_Total = VALUE_DOLLARS r\<rparr>)
       (filter (\<lambda>(y, r). is_real r) sl)"

text \<open>
  Lines 259 to 264 and 268 to 272: rows in current dollars, merged with the index and
  deflated. (On an empty selection the script skips the deflation; there is no row
  then.)
\<close>

definition deflate_rows :: "(int \<times> gdp_row) list \<Rightarrow> cpi_idx list \<Rightarrow> total_row list" where
  "deflate_rows rows cpi =
     map (\<lambda>((y, r), c). \<lparr>Year = y, Province = Province r, Sector = (),
                          GDP_Real_Total = deflate (VALUE_DOLLARS r) (cpi_of c)\<rparr>)
       (merge_left (\<lambda>(y, r). (y, Province r)) key rows cpi)"

definition part_curr :: "(int \<times> gdp_row) list \<Rightarrow> cpi_idx list \<Rightarrow> total_row list" where
  "part_curr sl cpi = deflate_rows (filter (\<lambda>(y, r). is_current r) sl) cpi"

text \<open>
  \<^verbatim>\<open>build_total_gdp_81_95\<close>, on the column names and the rows of table 36100221.
  \<^verbatim>\<open>sort_values\<close> on two columns is a stable sort.
\<close>

definition build_total_gdp_81_95 ::
  "string list \<Rightarrow> gdp_row list \<Rightarrow> cpi_idx list \<Rightarrow> error + total_row list" where
  "build_total_gdp_81_95 cols df90 cpi =
     (case find_col cols [''income-based estimates'', ''estimates''] of
        None \<Rightarrow> Inl ValueError
      | Some concept_col \<Rightarrow>
          let sl = total_slice df90;
              out = (case find_col cols [''prices''] of
                       Some price_col \<Rightarrow> part_real sl @ part_curr sl cpi
                     | None \<Rightarrow> deflate_rows sl cpi)
          in Inr (drop_duplicates key (sort_key key out)))"

text \<open>A small table 36100221: Alberta in 1985 on both bases, the current row first, and in 1986 in current dollars only.\<close>

definition total_row_of :: "int \<Rightarrow> string \<Rightarrow> string \<Rightarrow> string \<Rightarrow> real \<Rightarrow> gdp_row" where
  "total_row_of y geo prices estimates v =
     \<lparr>Year = Some y, Province = [], Sector = (), GEO = geo, SCALAR_FACTOR = Some ''units'',
      VALUE = Fin v, VALUE_DOLLARS = NaN, Prices = prices, Industry = [],
      Estimates = estimates\<rparr>"

definition total_cols_demo :: "string list" where
  "total_cols_demo = [''REF_DATE'', ''GEO'', ''Prices'', ''Estimates'', ''VALUE'']"

definition raw_total_demo :: "gdp_row list" where
  "raw_total_demo =
     [total_row_of 1985 ''Alberta'' ''Current prices''
        ''Gross domestic product at market prices'' 80,
      total_row_of 1985 ''Alberta'' ''Chained (2012) dollars''
        ''Gross domestic product at market prices'' 100,
      total_row_of 1986 ''Alberta'' ''Current prices''
        ''Gross domestic product at market prices'' 60,
      total_row_of 1985 ''Alberta'' ''Chained (2012) dollars''
        ''Final consumption expenditure'' 70]"

definition cpi_total_demo :: "cpi_idx list" where
  "cpi_total_demo =
     [\<lparr>Year = 1985, Province = ''Alberta'', Sector = (), CPI_index = Fin 200\<rparr>,
      \<lparr>Year = 1986, Province = ''Alberta'', Sector = (), CPI_index = Fin 120\<rparr>]"

section \<open>Panel assembler\<close>

text \<open>
  The sector-level panel (lines 493 to 535). A row of the panel is a row of the anchor
  table \<^verbatim>\<open>gdp_sectors\<close> with the cells the joins bring, in the order of the
  \<^verbatim>\<open>SELECT\<close> list. A joined table is given by its key and the columns taken from it.
  \<^verbatim>\<open>LEFT JOIN ... ON\<close> compares the table's key with columns of the anchor row: the
  anchor row comes once with each row of the table that has its key, and once with
  missing cells when no row has.
\<close>

type_synonym panel_row = "sector_row \<times> fval list"

definition join_cols ::
  "nat \<Rightarrow> ('a \<Rightarrow> 'k) \<Rightarrow> ('k \<times> fval list) list \<Rightarrow> ('a \<times> fval list) list \<Rightarrow>
   ('a \<times> fval list) list" where
  "join_cols n kf tbl rows =
     concat (map (\<lambda>(s, cells).
                    case filter (\<lambda>(k, vs). k = kf s) tbl of
                      [] \<Rightarrow> [(s, cells @ replicate n NaN)]
                    | ms \<Rightarrow> map (\<lambda>(k, vs). (s, cells @ vs)) ms) rows)"

text \<open>A table with one value column, as the join takes it.\<close>

definition one_col :: "('k \<times> fval) list \<Rightarrow> ('k \<times> fval list) list" where
  "one_col tbl = map (\<lambda>(k, v). (k, [v])) tbl"

text \<open>
  The query of lines 493 to 520. Cells 0 to 10 of a row are \<^verbatim>\<open>Comp_Real_Sector\<close>,
  \<^verbatim>\<open>GDP_Real_Total\<close>, \<^verbatim>\<open>Comp_Real_Total\<close>, \<^verbatim>\<open>Employment\<close>,
  \<^verbatim>\<open>Population\<close>, \<^verbatim>\<open>Bank_Rate\<close>, \<^verbatim>\<open>WTI_Crude_USD\<close>, \<^verbatim>\<open>Coal_USD\<close>,
  \<^verbatim>\<open>Chemical_USD\<close>, \<^verbatim>\<open>Wheat_USD\<close> and \<^verbatim>\<open>USDCAD\<close>. The exchange table has
  the columns \<^verbatim>\<open>USDCAD\<close>, \<^verbatim>\<open>log_USDCAD\<close> and \<^verbatim>\<open>dlog_USDCAD\<close>.
\<close>

definition panel_query ::
  "sector_row list \<Rightarrow> ((int \<times> string \<times> string) \<times> fval) list \<Rightarrow>
   ((int \<times> string) \<times> fval) list \<Rightarrow> ((int \<times> string) \<times> fval) list \<Rightarrow>
   ((int \<times> string) \<times> fval) list \<Rightarrow> ((int \<times> string) \<times> fval) list \<Rightarrow>
   (int \<times> fval) list \<Rightarrow> (int \<times> fval) list \<Rightarrow> (int \<times> fval) list \<Rightarrow>
   (int \<times> fval) list \<Rightarrow> (int \<times> fval) list \<Rightarrow> (int \<times> fval \<times> fval \<times> fval) list \<Rightarrow>
   panel_row list" where
  "panel_query gdp_sect comp_sct gdp_tot comp_tot employment population bank_rate wti coal
       chem wheat us_cad =
     join_cols 1 Year (map (\<lambda>(y, u, l, d). (y, [u])) us_cad)
      (join_cols 1 Year (one_col wheat)
       (join_cols 1 Year (one_col chem)
        (join_cols 1 Year (one_col coal)
         (join_cols 1 Year (one_col wti)
          (join_cols 1 Year (one_col bank_rate)
           (join_cols 1 key (one_col population)
            (join_cols 1 key (one_col employment)
             (join_cols 1 key (one_col comp_tot)
              (join_cols 1 key (one_col gdp_tot)
               (join_cols 1 key3 (one_col comp_sct)
                 (map (\<lambda>s. (s, [])) gdp_sect)))))))))))"

text \<open>
  Lines 524 to 535: the logs of the exchange rate are merged on the year (cells 11 and
  12), the four commodity prices are converted with the exchange rate (cells 13 to 16),
  and the rows outside 1975 to 1995 or outside the admitted provinces are dropped.
\<close>

definition panel_df ::
  "sector_row list \<Rightarrow> ((int \<times> string \<times> string) \<times> fval) list \<Rightarrow>
   ((int \<times> string) \<times> fval) list \<Rightarrow> ((int \<times> string) \<times> fval) list \<Rightarrow>
   ((int \<times> string) \<times> fval) list \<Rightarrow> ((int \<times> string) \<times> fval) list \<Rightarrow>
   (int \<times> fval) list \<Rightarrow> (int \<times> fval) list \<Rightarrow> (int \<times> fval) list \<Rightarrow>
   (int \<times> fval) list \<Rightarrow> (int \<times> fval) list \<Rightarrow> (int \<times> fval \<times> fval \<times> fval) list \<Rightarrow>
   panel_row list" where
  "panel_df gdp_sect comp_sct gdp_tot comp_tot employment population bank_rate wti coal
       chem wheat us_cad =
     (let q = panel_query gdp_sect comp_sct gdp_tot comp_tot employment population bank_rate
                wti coal chem wheat us_cad;
          m = join_cols 2 Year (map (\<lambda>(y, u, l, d). (y, [l, d])) us_cad) q;
          c = map (\<lambda>(s, cells).
                     (s, cells @ [fmul (cells ! 6) (cells ! 10), fmul (cells ! 7) (cells ! 10),
                                  fmul (cells ! 8) (cells ! 10), fmul (cells ! 9) (cells ! 10)])) m
      in filter (\<lambda>(s, cells). between 1975 1995 (Year s) \<and> Province s \<in> set included_geo) c)"

text \<open>Small joined tables for the mining rows of Alberta.\<close>

definition comp_sct_demo :: "((int \<times> string \<times> string) \<times> fval) list" where
  "comp_sct_demo = [((1983, ''Alberta'', ''OIL_GAS''), Fin 5)]"

definition gdp_tot_demo :: "((int \<times> string) \<times> fval) list" where
  "gdp_tot_demo = [((1983, ''Alberta''), Fin 100), ((1984, ''Alberta''), Fin 110)]"

definition bank_rate_demo :: "(int \<times> fval) list" where
  "bank_rate_demo = [(1983, Fin 9), (1984, Fin 11), (1985, Fin 10)]"

definition us_cad_demo :: "(int \<times> fval \<times> fval \<times> fval) list" where
  "us_cad_demo = [(1984, Fin 1, Fin 0, NaN)]"

section \<open>Province-level panel and final checks\<close>

text \<open>Line 464: one row for each key, in order of first occurrence, with the sum of its values.\<close>

definition gdp_total_dedup :: "total_row list \<Rightarrow> total_row list" where
  "gdp_total_dedup rows =
     map (\<lambda>k. \<lparr>Year = fst k, Province = snd k, Sector = (),
                GDP_Real_Total = sum_skipna (map GDP_Real_Total (filter (\<lambda>r. key r = k) rows))\<rparr>)
       (unique (map key rows))"

text \<open>
  Lines 551 to 566. A row of the province-level panel is a row of \<^verbatim>\<open>gdp_total\<close> with
  the cells the left merges bring: cells 0 to 10 are \<^verbatim>\<open>Comp_Real_Total\<close>,
  \<^verbatim>\<open>Employment\<close>, \<^verbatim>\<open>Population\<close>, \<^verbatim>\<open>Bank_Rate\<close>, \<^verbatim>\<open>WTI_Crude_USD\<close>,
  \<^verbatim>\<open>Coal_USD\<close>, \<^verbatim>\<open>Chemical_USD\<close>, \<^verbatim>\<open>Wheat_USD\<close>, \<^verbatim>\<open>USDCAD\<close>,
  \<^verbatim>\<open>log_USDCAD\<close> and \<^verbatim>\<open>dlog_USDCAD\<close>. The rows outside 1975 to 1995 or outside
  the admitted provinces are dropped.
\<close>

type_synonym prov_row = "total_row \<times> fval list"

definition prov_df ::
  "total_row list \<Rightarrow> ((int \<times> string) \<times> fval) list \<Rightarrow> ((int \<times> string) \<times> fval) list \<Rightarrow>
   ((int \<times> string) \<times> fval) list \<Rightarrow> (int \<times> fval) list \<Rightarrow> (int \<times> fval) list \<Rightarrow>
   (int \<times> fval) list \<Rightarrow> (int \<times> fval) list \<Rightarrow> (int \<times> fval) list \<Rightarrow>
   (int \<times> fval \<times> fval \<times> fval) list \<Rightarrow> prov_row list" where
  "prov_df gdp_tot comp_tot lfs_agg pop bank_rate wti coal chem wheat us_cad =
     filter (\<lambda>(t, cells). between 1975 1995 (Year t) \<and> Province t \<in> set included_geo)
      (join_cols 3 Year (map (\<lambda>(y, u, l, d). (y, [u, l, d])) us_cad)
       (join_cols 1 Year (one_col wheat)
        (join_cols 1 Year (one_col chem)
         (join_cols 1 Year (one_col coal)
          (join_cols 1 Year (one_col wti)
           (join_cols 1 Year (one_col bank_rate)
            (join_cols 1 key (one_col pop)
             (join_cols 1 key (one_col lfs_agg)
              (join_cols 1 key (one_col comp_tot)
                (map (\<lambda>t. (t, [])) gdp_tot))))))))))"

definition Comp_Real_Total :: "prov_row \<Rightarrow> fval" where
  "Comp_Real_Total r = snd r ! 0"

definition Employment_of :: "prov_row \<Rightarrow> fval" where
  "Employment_of r = snd r ! 1"

definition Population :: "prov_row \<Rightarrow> fval" where
  "Population r = snd r ! 2"

text \<open>Lines 569 to 571: the outcomes of a row.\<close>

definition GDP_pc_real_1986 :: "prov_row \<Rightarrow> fval" where
  "GDP_pc_real_1986 r = fdiv (GDP_Real_Total (fst r)) (Population r)"

definition Wpw_All :: "prov_row \<Rightarrow> fval" where
  "Wpw_All r = fdiv (Comp_Real_Total r) (replace_zero (Employment_of r))"

definition LabourShare_Total :: "prov_row \<Rightarrow> fval" where
  "LabourShare_Total r = fdiv (Comp_Real_Total r) (replace_zero (GDP_Real_Total (fst r)))"

text \<open>Lines 747 to 749: the full grid of years and admitted provinces.\<close>

definition grid :: "(int \<times> string) list" where
  "grid = concat (map (\<lambda>y. map (\<lambda>p. (y, p)) (sort included_geo)) [1975..1995])"

text \<open>
  Lines 750 to 756: the grid is merged with the panel's \<^verbatim>\<open>GDP_Real_Total\<close> and
  \<^verbatim>\<open>Population\<close>, and the rows where one of the two is missing are printed, sorted
  by province and year. A row of the report is a key with the two cells.
\<close>

definition missing_report :: "prov_row list \<Rightarrow> ((int \<times> string) \<times> fval \<times> fval) list" where
  "missing_report prov =
     sort_key (\<lambda>(k, g, p). (snd k, fst k))
       (filter (\<lambda>(k, g, p). isna g \<or> isna p)
          (map (\<lambda>(k, m). (k, case m of
                                 None \<Rightarrow> (NaN, NaN)
                               | Some r \<Rightarrow> (GDP_Real_Total (fst r), Population r)))
             (merge_left id (key \<circ> fst) grid prov)))"

text \<open>Lines 759 and 760: the two assertions, in order; \<open>None\<close> when both hold.\<close>

definition final_asserts :: "prov_row list \<Rightarrow> error option" where
  "final_asserts prov =
     (if \<not> list_all (\<lambda>r. \<not> isna (GDP_pc_real_1986 r)) prov then Some AssertionError
      else if \<not> list_all (\<lambda>r. fgt (Wpw_All r) 0) prov then Some AssertionError
      else None)"

text \<open>
  Lines 746 to 760 on the province-level panel: the report that is printed, and the
  error that ends the run there, if any.
\<close>

definition diagnostics ::
  "prov_row list \<Rightarrow> ((int \<times> string) \<times> fval \<times> fval) list \<times> error option" where
  "diagnostics prov = (missing_report prov, final_asserts prov)"

section \<open>Verified properties\<close>

text \<open>
  C4. As stated (the real value is missing whenever the index is null or zero) the claim
  fails: a positive nominal value over a zero index is \<open>+inf\<close>, which pandas does
  not count as missing.
\<close>

theorem deflate_zero_index_counterexample:
  "\<not> isna (deflate (Fin 50000) (Fin 0)) \<and> deflate (Fin 50000) (Fin 0) = PInf"
  by (simp add: deflate_def)

text \<open>
  C4, amended. The deflated value is \<open>nominal / (CPI_index/100)\<close> when both are
  numbers and the index is not zero; it is missing whenever the index is missing, or
  the nominal value is; over a zero index a nominal number is missing only when it is
  zero itself, and otherwise the result is the infinity of its sign. No case raises:
  \<open>deflate\<close> is a total function into cells.
\<close>

theorem deflate_identity:
  "(c \<noteq> 0 \<longrightarrow> deflate (Fin n) (Fin c) = Fin (n / (c / 100))) \<and>
   deflate v NaN = NaN \<and>
   deflate NaN i = NaN \<and>
   deflate (Fin n) (Fin 0) = (if n = 0 then NaN else if 0 < n then PInf else NInf)"
  by (cases v; cases i) (simp_all add: deflate_def)

theorem deflate_identity_witness:
  "deflate (Fin 50000) (Fin 100) = Fin 50000 \<and> deflate (Fin 50000) NaN = NaN \<and>
   deflate (Fin 0) (Fin 0) = NaN"
  using deflate_identity [of 100 50000 "Fin 50000" NaN] deflate_identity [of 100 0 NaN NaN]
  by simp

text \<open>
  C10. When the filtered employment table has a first row \<open>r0\<close>, the script returns a
  table of the same length in which every row's \<open>Employment\<close> is its \<open>VALUE\<close> times
  1000 if the lower-cased scale tag of \<open>r0\<close> is \<open>thousands\<close>, and its \<open>VALUE\<close>
  unchanged otherwise: the tags of the other rows are not read.
\<close>

theorem lfs_scaling_by_first_row:
  assumes "lfs_filter (apply_geo_filter raw) = r0 # rest"
  shows "\<exists>out. lfs_employment raw = Inr out \<and> length out = Suc (length rest) \<and>
     (\<forall>i \<le> length rest. Employment (out ! i) =
        (if map_option lower (SCALAR_FACTOR r0) = Some ''thousands''
         then fmul (VALUE ((r0 # rest) ! i)) (Fin 1000) else VALUE ((r0 # rest) ! i)))"
  using assms
  by (auto simp: lfs_employment_def lfs_scale_def nth_Cons split: nat.splits)

theorem lfs_scaling_by_first_row_witness:
  "lfs_filter (apply_geo_filter lfs_demo) \<noteq> [] \<and>
   (\<exists>out. lfs_employment lfs_demo = Inr out \<and> length out = 2 \<and>
      Employment (out ! 0) = Fin 812000 \<and> Employment (out ! 1) = Fin 3700000)"
proof -
  define r0 where "r0 = hd (lfs_filter (apply_geo_filter lfs_demo))"
  define rest where "rest = tl (lfs_filter (apply_geo_filter lfs_demo))"
  have ne: "lfs_filter (apply_geo_filter lfs_demo) \<noteq> []"
    by code_simp
  then have split: "lfs_filter (apply_geo_filter lfs_demo) = r0 # rest"
    by (simp add: r0_def rest_def)
  have len: "length rest = 1"
    unfolding rest_def by code_simp
  have tag: "map_option lower (SCALAR_FACTOR r0) = Some ''thousands''"
    unfolding r0_def by code_simp
  have v0: "VALUE r0 = Fin 812"
    unfolding r0_def by code_simp
  have v1: "VALUE (rest ! 0) = Fin 3700"
    unfolding rest_def by code_simp
  from lfs_scaling_by_first_row [OF split] obtain out where
    out: "lfs_employment lfs_demo = Inr out" "length out = Suc (length rest)"
    and emp: "\<forall>i \<le> length rest. Employment (out ! i) =
        (if map_option lower (SCALAR_FACTOR r0) = Some ''thousands''
         then fmul (VALUE ((r0 # rest) ! i)) (Fin 1000) else VALUE ((r0 # rest) ! i))"
    by blast
  from emp tag len have "Employment (out ! 0) = fmul (VALUE r0) (Fin 1000)"
    and "Employment (out ! 1) = fmul (VALUE (rest ! 0)) (Fin 1000)"
    by auto
  with v0 v1 out len ne show ?thesis by simp
qed

subsection \<open>Event bins\<close>

lemma of_char_digit: "d < 10 \<Longrightarrow> (of_char (digit_char d) :: nat) = 48 + d"
proof -
  assume d: "d < 10"
  have "(of_char (digit_char d) :: nat) = (48 + d) mod 256"
    unfolding digit_char_def by (rule of_char_of)
  also have "\<dots> = 48 + d" using d by (intro mod_less) linarith
  finally show ?thesis .
qed

lemma digit_char_inj: "a < 10 \<Longrightarrow> b < 10 \<Longrightarrow> digit_char a = digit_char b \<Longrightarrow> a = b"
  by (metis of_char_digit add_left_cancel)

lemma str_nat_nonempty: "str_nat n \<noteq> []"
  by (subst str_nat.simps) simp

lemma str_nat_inj: "str_nat n = str_nat m \<Longrightarrow> n = m"
proof (induction n arbitrary: m rule: str_nat.induct)
  case (1 n)
  show ?case
  proof (cases "n < 10")
    case True
    then have n: "str_nat n = [digit_char n]" by (subst str_nat.simps) simp
    show ?thesis
    proof (cases "m < 10")
      case True
      then have "str_nat m = [digit_char m]" by (subst str_nat.simps) simp
      with n "1.prems" \<open>n < 10\<close> True show ?thesis by (auto dest: digit_char_inj)
    next
      case False
      then have "str_nat m = str_nat (m div 10) @ [digit_char (m mod 10)]"
        by (subst str_nat.simps) simp
      with n "1.prems" str_nat_nonempty [of "m div 10"] show ?thesis by (cases "str_nat (m div 10)") auto
    qed
  next
    case False
    then have n: "str_nat n = str_nat (n div 10) @ [digit_char (n mod 10)]"
      by (subst str_nat.simps) simp
    show ?thesis
    proof (cases "m < 10")
      case True
      then have "str_nat m = [digit_char m]" by (subst str_nat.simps) simp
      with n "1.prems" str_nat_nonempty [of "n div 10"] show ?thesis by (cases "str_nat (n div 10)") auto
    next
      case m: False
      then have "str_nat m = str_nat (m div 10) @ [digit_char (m mod 10)]"
        by (subst str_nat.simps) simp
      with n "1.prems" have e1: "str_nat (n div 10) = str_nat (m div 10)"
        and e2: "digit_char (n mod 10) = digit_char (m mod 10)" by auto
      from "1.IH" [OF False e1] have "n div 10 = m div 10" .
      moreover from e2 have "n mod 10 = m mod 10" by (intro digit_char_inj) simp_all
      ultimately show ?thesis by (metis div_mult_mod_eq)
    qed
  qed
qed

lemma bin_col_inj: "bin_col name k = bin_col name k' \<Longrightarrow> k = k'"
proof -
  assume e: "bin_col name k = bin_col name k'"
  then have t: "(if k < 0 then ''m'' else ''p'') @ str_nat (nat \<bar>k\<bar>) =
      (if k' < 0 then ''m'' else ''p'') @ str_nat (nat \<bar>k'\<bar>)"
    by (simp add: bin_col_def)
  then have sg: "(k < 0) = (k' < 0)" by (auto split: if_splits)
  with t have "str_nat (nat \<bar>k\<bar>) = str_nat (nat \<bar>k'\<bar>)" by (auto split: if_splits)
  then have "nat \<bar>k\<bar> = nat \<bar>k'\<bar>" by (rule str_nat_inj)
  with sg show ?thesis by linarith
qed

lemma event_bins_names:
  "fst ` set (event_bins name rel ks df) = fst ` set df \<union> bin_col name ` (set ks - {- 1})"
  by (induction ks arbitrary: df) (auto simp: dom_update)

lemma event_bins_lookup:
  "map_of (event_bins name rel ks df) (bin_col name k) =
     (if k \<in> set ks \<and> k \<noteq> - 1 then Some (map (\<lambda>v. I (rel_eq v k)) rel)
      else map_of df (bin_col name k))"
  by (induction ks arbitrary: df) (auto simp: update_conv' dest: bin_col_inj)

lemma length_update_fresh:
  "k \<notin> fst ` set al \<Longrightarrow> length (AList.update k v al) = Suc (length al)"
  by (induction al) auto

lemma event_bins_length:
  "distinct ks \<Longrightarrow> bin_col name ` (set ks - {- 1}) \<inter> fst ` set df = {} \<Longrightarrow>
   length (event_bins name rel ks df) = length df + length (filter (\<lambda>k. k \<noteq> - 1) ks)"
proof (induction ks arbitrary: df)
  case Nil
  then show ?case by simp
next
  case (Cons k ks)
  show ?case
  proof (cases "k = - 1")
    case True
    with Cons show ?thesis by auto
  next
    case False
    let ?df = "AList.update (bin_col name k) (map (\<lambda>v. I (rel_eq v k)) rel) df"
    from Cons.prems False have fresh: "bin_col name k \<notin> fst ` set df" by auto
    have "bin_col name ` (set ks - {- 1}) \<inter> fst ` set ?df = {}"
      using Cons.prems by (auto simp: dom_update dest: bin_col_inj)
    with Cons.IH [of ?df] Cons.prems
    have "length (event_bins name rel ks ?df) = length ?df + length (filter (\<lambda>k. k \<noteq> - 1) ks)"
      by simp
    with False fresh show ?thesis by (simp add: length_update_fresh)
  qed
qed

lemma bin_offsets_set: "set (bin_offsets w) = {- w..w} - {- 1}"
  by (auto simp: bin_offsets_def)

lemma bin_offsets_length: "1 \<le> w \<Longrightarrow> length (bin_offsets w) = nat (2 * w)"
proof -
  assume w: "1 \<le> w"
  then have "[- w..w] = [- w..- 1 - 1] @ (- 1) # [- 1 + 1..w]"
    by (intro upto_split3) auto
  then have "bin_offsets w = filter (\<lambda>k. k \<noteq> - 1) [- w..- 2] @ filter (\<lambda>k. k \<noteq> - 1) [0..w]"
    by (simp add: bin_offsets_def)
  moreover have "filter (\<lambda>k. k \<noteq> - 1) [- w..- 2] = [- w..- 2]"
    by (rule filter_True) auto
  moreover have "filter (\<lambda>k. k \<noteq> - 1) [0..w] = [0..w]"
    by (rule filter_True) auto
  ultimately show ?thesis using w by simp
qed

lemma bin_offsets_distinct: "distinct (map (bin_col name) (bin_offsets w))"
  by (auto simp: distinct_map bin_offsets_def inj_on_def dest: bin_col_inj)

lemma rel_eq_one: "rel_eq v k = 1 \<longleftrightarrow> v = Fin (of_int k)"
  by (simp add: rel_eq_def)

lemma add_event_vars_names:
  "fst ` set (add_event_vars rows df name year treated w) =
     fst ` set df \<union> {name @ ''_treated'', name @ ''_post'', name @ ''_rel''} \<union>
     bin_col name ` set (bin_offsets w)"
  by (auto simp: add_event_vars_def Let_def event_bins_names dom_update bin_offsets_def)

lemma add_event_vars_lookup:
  "k \<in> set (bin_offsets w) \<Longrightarrow>
   map_of (add_event_vars rows df name year treated w) (bin_col name k) =
     Some (map (\<lambda>r. I (rel_eq (event_rel year treated r) k)) rows)"
  by (simp add: add_event_vars_def Let_def event_bins_lookup bin_offsets_def comp_def)

lemma add_event_vars_length:
  assumes "({name @ ''_treated'', name @ ''_post'', name @ ''_rel''} \<union>
            bin_col name ` set (bin_offsets w)) \<inter> fst ` set df = {}"
  shows "length (add_event_vars rows df name year treated w) =
     length df + 3 + length (bin_offsets w)"
proof -
  let ?df1 = "AList.update (name @ ''_treated'') (map (\<lambda>r. I (event_treated treated r)) rows) df"
  let ?df2 = "AList.update (name @ ''_post'') (map (\<lambda>r. I (event_post year treated r)) rows) ?df1"
  let ?rel = "map (event_rel year treated) rows"
  let ?df3 = "AList.update (name @ ''_rel'') (map F ?rel) ?df2"
  have l1: "length ?df1 = Suc (length df)"
    using assms by (intro length_update_fresh) auto
  have l2: "length ?df2 = Suc (length ?df1)"
    using assms by (intro length_update_fresh) (auto simp: dom_update)
  have l3: "length ?df3 = Suc (length ?df2)"
    using assms by (intro length_update_fresh) (auto simp: dom_update)
  have fresh: "bin_col name k \<notin> fst ` set df" if "k \<in> set (bin_offsets w)" for k
    using assms that by blast
  have other: "bin_col name k \<notin> {name @ ''_treated'', name @ ''_post'', name @ ''_rel''}" for k
    by (simp add: bin_col_def)
  have "bin_col name k \<notin> fst ` set ?df3" if "k \<in> set [- w..w] - {- 1}" for k
  proof -
    from that have "k \<in> set (bin_offsets w)" by (simp add: bin_offsets_def)
    from fresh [OF this] other [of k] show ?thesis by (simp add: dom_update)
  qed
  then have "bin_col name ` (set [- w..w] - {- 1}) \<inter> fst ` set ?df3 = {}"
    by blast
  then have "length (event_bins name ?rel [- w..w] ?df3) =
      length ?df3 + length (filter (\<lambda>k. k \<noteq> - 1) [- w..w])"
    by (intro event_bins_length) auto
  with l1 l2 l3 show ?thesis
    by (simp add: add_event_vars_def Let_def bin_offsets_def)
qed

lemma EVENTS_windows: "\<forall>(n, y, t, w) \<in> set EVENTS. 1 \<le> w"
  by (simp add: EVENTS_def)

lemma event_bin_columns_aux:
  fixes rows :: "(int, 's, 'a) keyed_scheme list"
  assumes "1 \<le> w"
  shows "length (bin_offsets w) = nat (2 * w) \<and>
    set (bin_offsets w) = {- w..w} - {- 1} \<and>
    distinct (map (bin_col name) (bin_offsets w)) \<and>
    fst ` set (add_event_vars rows df name year treated w) =
      fst ` set df \<union> {name @ ''_treated'', name @ ''_post'', name @ ''_rel''} \<union>
      bin_col name ` set (bin_offsets w) \<and>
    (({name @ ''_treated'', name @ ''_post'', name @ ''_rel''} \<union>
       bin_col name ` set (bin_offsets w)) \<inter> fst ` set df = {} \<longrightarrow>
     length (add_event_vars rows df name year treated w) = length df + 3 + nat (2 * w)) \<and>
    (\<forall>k \<in> set (bin_offsets w).
       map_of (add_event_vars rows df name year treated w) (bin_col name k) =
         Some (map (\<lambda>r. I (rel_eq (event_rel year treated r) k)) rows)) \<and>
    (\<forall>r k. rel_eq (event_rel year treated r) k = 1 \<longleftrightarrow>
       event_rel year treated r = Fin (of_int k)) \<and>
    (\<forall>r k k'. rel_eq (event_rel year treated r) k = 1 \<and>
       rel_eq (event_rel year treated r) k' = 1 \<longrightarrow> k = k')"
proof (intro conjI)
  show "length (bin_offsets w) = nat (2 * w)"
    using assms by (rule bin_offsets_length)
  show "set (bin_offsets w) = {- w..w} - {- 1}"
    by (rule bin_offsets_set)
  show "distinct (map (bin_col name) (bin_offsets w))"
    by (rule bin_offsets_distinct)
  show "fst ` set (add_event_vars rows df name year treated w) =
      fst ` set df \<union> {name @ ''_treated'', name @ ''_post'', name @ ''_rel''} \<union>
      bin_col name ` set (bin_offsets w)"
    by (rule add_event_vars_names)
  show "({name @ ''_treated'', name @ ''_post'', name @ ''_rel''} \<union>
       bin_col name ` set (bin_offsets w)) \<inter> fst ` set df = {} \<longrightarrow>
     length (add_event_vars rows df name year treated w) = length df + 3 + nat (2 * w)"
    using add_event_vars_length [of name w df rows year treated] bin_offsets_length [OF assms]
    by simp
  show "\<forall>k \<in> set (bin_offsets w).
       map_of (add_event_vars rows df name year treated w) (bin_col name k) =
         Some (map (\<lambda>r. I (rel_eq (event_rel year treated r) k)) rows)"
    by (simp add: add_event_vars_lookup)
  show "\<forall>r k. rel_eq (event_rel year treated r) k = 1 \<longleftrightarrow>
       event_rel year treated r = Fin (of_int k)"
    by (simp add: rel_eq_one)
  show "\<forall>r k k'. rel_eq (event_rel year treated r) k = 1 \<and>
       rel_eq (event_rel year treated r) k' = 1 \<longrightarrow> k = k'"
    by (auto simp: rel_eq_one)
qed

text \<open>
  C9. Every configured event has a half-window of at least 1, and for every such
  half-window \<open>w\<close> the annotator writes exactly \<open>2 * w\<close> indicator columns, with
  distinct names, one for each offset of \<open>[-w, w]\<close> but \<open>-1\<close>; on a frame that has
  none of the new names the column count grows by these and the three columns treated,
  post and rel. The cell of offset \<open>k\<close> on a row is 1 exactly when the row's relative
  time is \<open>k\<close>, so no row has two indicators at 1.
\<close>

theorem event_bin_columns:
  fixes rows :: "(int, 's, 'a) keyed_scheme list"
  shows "(\<forall>(n, y, t, w') \<in> set EVENTS. 1 \<le> w') \<and>
   (1 \<le> w \<longrightarrow>
    length (bin_offsets w) = nat (2 * w) \<and>
    set (bin_offsets w) = {- w..w} - {- 1} \<and>
    distinct (map (bin_col name) (bin_offsets w)) \<and>
    fst ` set (add_event_vars rows df name year treated w) =
      fst ` set df \<union> {name @ ''_treated'', name @ ''_post'', name @ ''_rel''} \<union>
      bin_col name ` set (bin_offsets w) \<and>
    (({name @ ''_treated'', name @ ''_post'', name @ ''_rel''} \<union>
       bin_col name ` set (bin_offsets w)) \<inter> fst ` set df = {} \<longrightarrow>
     length (add_event_vars rows df name year treated w) = length df + 3 + nat (2 * w)) \<and>
    (\<forall>k \<in> set (bin_offsets w).
       map_of (add_event_vars rows df name year treated w) (bin_col name k) =
         Some (map (\<lambda>r. I (rel_eq (event_rel year treated r) k)) rows)) \<and>
    (\<forall>r k. rel_eq (event_rel year treated r) k = 1 \<longleftrightarrow>
       event_rel year treated r = Fin (of_int k)) \<and>
    (\<forall>r k k'. rel_eq (event_rel year treated r) k = 1 \<and>
       rel_eq (event_rel year treated r) k' = 1 \<longrightarrow> k = k'))"
  using EVENTS_windows event_bin_columns_aux [of w name rows df year treated] by blast

theorem event_bin_columns_witness:
  "(1::int) \<le> 6 \<and> (''NEP'', 1980, [''Alberta''], 6) \<in> set EVENTS \<and>
   length (bin_offsets 6) = 12 \<and>
   length (add_event_vars event_demo_rows [] ''NEP'' 1980 [''Alberta''] 6) = 15 \<and>
   map_of (add_event_vars event_demo_rows [] ''NEP'' 1980 [''Alberta''] 6) ''NEP_bin_p2'' =
     Some [I 1, I 0, I 0] \<and>
   map_of (add_event_vars event_demo_rows [] ''NEP'' 1980 [''Alberta''] 6) ''NEP_bin_m1'' = None"
proof -
  let ?out = "add_event_vars event_demo_rows [] ''NEP'' 1980 [''Alberta''] 6"
  let ?new = "{''NEP'' @ ''_treated'', ''NEP'' @ ''_post'', ''NEP'' @ ''_rel''} \<union>
       bin_col ''NEP'' ` set (bin_offsets 6)"
  have w: "(1::int) \<le> 6" by simp
  note main = event_bin_columns [of 6 "''NEP''" event_demo_rows "[]" 1980 "[''Alberta'']"]
  have ev: "(''NEP'', 1980, [''Alberta''], 6) \<in> set EVENTS" by (simp add: EVENTS_def)
  have mem: "2 \<in> set (bin_offsets 6)" by (simp add: bin_offsets_set)
  have nm: "bin_col ''NEP'' 2 = ''NEP_bin_p2''" by code_simp
  have col: "map (\<lambda>r. I (rel_eq (event_rel 1980 [''Alberta''] r) 2)) event_demo_rows = [I 1, I 0, I 0]"
    by (simp add: event_demo_rows_def rel_eq_def event_rel_def event_treated_def)
  from main w mem have "map_of ?out (bin_col ''NEP'' 2) =
      Some (map (\<lambda>r. I (rel_eq (event_rel 1980 [''Alberta''] r) 2)) event_demo_rows)"
    by blast
  with nm col have p2: "map_of ?out ''NEP_bin_p2'' = Some [I 1, I 0, I 0]" by simp
  from main w have "length (bin_offsets 6) = nat (2 * 6)" by blast
  then have offs: "length (bin_offsets 6) = 12" by simp
  from main w have "?new \<inter> fst ` set ([] :: columns) = {} \<longrightarrow>
      length ?out = length ([] :: columns) + 3 + nat (2 * 6)" by blast
  then have len: "length ?out = 15" by simp
  from main w have names: "fst ` set ?out = fst ` set ([] :: columns) \<union>
      {''NEP'' @ ''_treated'', ''NEP'' @ ''_post'', ''NEP'' @ ''_rel''} \<union>
      bin_col ''NEP'' ` set (bin_offsets 6)" by blast
  have "''NEP_bin_m1'' \<notin> fst ` set ?out"
  proof -
    have "''NEP_bin_m1'' = bin_col ''NEP'' (- 1)" by code_simp
    moreover have "bin_col ''NEP'' (- 1) \<notin> bin_col ''NEP'' ` set (bin_offsets 6)"
      by (auto simp: bin_offsets_set dest: bin_col_inj)
    moreover have "bin_col ''NEP'' (- 1) \<notin> {''NEP'' @ ''_treated'', ''NEP'' @ ''_post'', ''NEP'' @ ''_rel''}"
      by (simp add: bin_col_def)
    ultimately show ?thesis using names by simp
  qed
  then have m1: "map_of ?out ''NEP_bin_m1'' = None" by (simp add: map_of_eq_None_iff)
  from w ev offs len p2 m1 show ?thesis by blast
qed

subsection \<open>Tables and vintages\<close>

lemma in_map_filter: "y \<in> set (List.map_filter f xs) \<longleftrightarrow> (\<exists>x \<in> set xs. f x = Some y)"
  by (induction xs) (auto split: option.splits)

lemma merge_left_fst: "fst ` set (merge_left kl kr ls rs) = set ls"
proof (induction ls)
  case Nil
  then show ?case by (simp add: merge_left_def)
next
  case (Cons l ls)
  have "fst ` set (case filter (\<lambda>r. kr r = kl l) rs of [] \<Rightarrow> [(l, None)]
                    | ms \<Rightarrow> map (\<lambda>r. (l, Some r)) ms) = {l}"
    by (cases "filter (\<lambda>r. kr r = kl l) rs") (auto simp: image_iff)
  with Cons show ?case by (simp add: merge_left_def image_Un)
qed

lemma extract_nominal_block_years:
  "r \<in> set (extract_nominal_block df industry y0 y1) \<Longrightarrow> between y0 y1 (Year r)"
  by (auto simp: extract_nominal_block_def in_map_filter split: option.splits if_splits)

lemma extract_real_block_years:
  "r \<in> set (extract_real_block df industry y0 y1) \<Longrightarrow> between y0 y1 (Year r)"
  by (auto simp: extract_real_block_def in_map_filter split: option.splits if_splits)

lemma extract_nominal_block_province:
  "r \<in> set (extract_nominal_block df industry y0 y1) \<Longrightarrow> Province r \<in> Province ` set df"
  by (auto simp: extract_nominal_block_def in_map_filter split: option.splits if_splits)

lemma extract_real_block_province:
  "r \<in> set (extract_real_block df industry y0 y1) \<Longrightarrow> Province r \<in> Province ` set df"
  by (auto simp: extract_real_block_def in_map_filter split: option.splits if_splits)

lemma sector_pre_source:
  assumes "r \<in> set (sector_pre gdp80 cpi ind)"
  obtains l where "l \<in> set (extract_nominal_block gdp80 ind 1975 1983)"
    and "Year r = Year l" and "Province r = Province l"
proof -
  from assms obtain l c
    where lc: "(l, c) \<in> set (merge_left key key (extract_nominal_block gdp80 ind 1975 1983) cpi)"
      and r: "Year r = Year l" "Province r = Province l"
    by (auto simp: sector_pre_def)
  from lc have "l \<in> fst ` set (merge_left key key (extract_nominal_block gdp80 ind 1975 1983) cpi)"
    by force
  then have "l \<in> set (extract_nominal_block gdp80 ind 1975 1983)"
    by (simp only: merge_left_fst)
  with r that show ?thesis by blast
qed

lemma sector_pre_years: "r \<in> set (sector_pre gdp80 cpi ind) \<Longrightarrow> between 1975 1983 (Year r)"
  by (erule sector_pre_source) (simp add: extract_nominal_block_years)

lemma sector_post_years: "r \<in> set (sector_post gdp90 ind) \<Longrightarrow> between 1984 1995 (Year r)"
  by (simp add: sector_post_def extract_real_block_years)

text \<open>
  C7. Every row of the deflated-current partition of a sector has its year in 1975 to
  1983 and every row of the real partition has its year in 1984 to 1995, so no key
  (year, province, sector) is in both, whatever the sectors and labels; and what
  \<open>build_sector\<close> returns is the first partition followed by the second.
\<close>

theorem sector_vintages_disjoint:
  "(\<forall>r \<in> set (sector_pre gdp80 cpi ind). between 1975 1983 (Year r)) \<and>
   (\<forall>r \<in> set (sector_post gdp90 ind'). between 1984 1995 (Year r)) \<and>
   key3 ` with_sector label ` set (sector_pre gdp80 cpi ind) \<inter>
     key3 ` with_sector label' ` set (sector_post gdp90 ind') = {} \<and>
   (\<forall>out. build_sector gdp80 gdp90 cpi sector_key label = Inr out \<longrightarrow>
      (\<exists>i. map_of SECTORS sector_key = Some i \<and>
           out = map (with_sector label) (sector_pre gdp80 cpi i) @
                 map (with_sector label) (sector_post gdp90 i)))"
proof (intro conjI)
  show "\<forall>r \<in> set (sector_pre gdp80 cpi ind). between 1975 1983 (Year r)"
    by (simp add: sector_pre_years)
  show "\<forall>r \<in> set (sector_post gdp90 ind'). between 1984 1995 (Year r)"
    by (simp add: sector_post_years)
  show "key3 ` with_sector label ` set (sector_pre gdp80 cpi ind) \<inter>
     key3 ` with_sector label' ` set (sector_post gdp90 ind') = {}"
  proof -
    have False if a: "a \<in> set (sector_pre gdp80 cpi ind)" and b: "b \<in> set (sector_post gdp90 ind')"
      and e: "key3 (with_sector label a) = key3 (with_sector label' b)" for a b
    proof -
      from e have "Year a = Year b" by (simp add: key3_def with_sector_def)
      with sector_pre_years [OF a] sector_post_years [OF b] show False
        by (simp add: between_def)
    qed
    then show ?thesis by blast
  qed
  show "\<forall>out. build_sector gdp80 gdp90 cpi sector_key label = Inr out \<longrightarrow>
      (\<exists>i. map_of SECTORS sector_key = Some i \<and>
           out = map (with_sector label) (sector_pre gdp80 cpi i) @
                 map (with_sector label) (sector_post gdp90 i))"
    by (auto simp: build_sector_def split: option.splits)
qed

theorem sector_vintages_disjoint_witness:
  "map key (sector_pre (add_dollar_value (apply_geo_filter raw80_demo)) cpi_demo
        ''Mining, quarrying and oil well industries'') = [(1983, ''Alberta'')] \<and>
   map key (sector_post (add_dollar_value (apply_geo_filter raw90_demo))
        ''Mining, quarrying and oil well industries'') = [(1984, ''Alberta'')] \<and>
   key3 ` with_sector ''OIL_GAS'' `
       set (sector_pre (add_dollar_value (apply_geo_filter raw80_demo)) cpi_demo
             ''Mining, quarrying and oil well industries'') \<inter>
     key3 ` with_sector ''OIL_GAS'' `
       set (sector_post (add_dollar_value (apply_geo_filter raw90_demo))
             ''Mining, quarrying and oil well industries'') = {}"
proof -
  have pre: "map key (sector_pre (add_dollar_value (apply_geo_filter raw80_demo)) cpi_demo
        ''Mining, quarrying and oil well industries'') = [(1983, ''Alberta'')]"
    by code_simp
  have post: "map key (sector_post (add_dollar_value (apply_geo_filter raw90_demo))
        ''Mining, quarrying and oil well industries'') = [(1984, ''Alberta'')]"
    by code_simp
  from pre post
    sector_vintages_disjoint [of "add_dollar_value (apply_geo_filter raw80_demo)" cpi_demo
      "''Mining, quarrying and oil well industries''"
      "add_dollar_value (apply_geo_filter raw90_demo)"
      "''Mining, quarrying and oil well industries''" "''OIL_GAS''" "''OIL_GAS''"]
  show ?thesis by blast
qed

subsection \<open>Consumer price index\<close>

lemma filter_map_key:
  assumes "distinct ks" and "\<And>k'. g (f k') = k'"
  shows "filter (\<lambda>x. g x = k) (map f ks) = (if k \<in> set ks then [f k] else [])"
  using assms(1)
proof (induction ks)
  case Nil
  then show ?case by simp
next
  case (Cons a ks)
  then show ?case using assms(2) by (auto simp: filter_empty_conv)
qed

lemma filter_concat_map:
  "filter P (concat (map f xs)) = concat (map (\<lambda>x. filter P (f x)) xs)"
  by (induction xs) auto

lemma concat_map_single:
  assumes "distinct xs" and "\<And>x. x \<in> set xs \<Longrightarrow> x \<noteq> p \<Longrightarrow> f x = []"
  shows "concat (map f xs) = (if p \<in> set xs then f p else [])"
  using assms
proof (induction xs)
  case Nil
  then show ?case by simp
next
  case (Cons a xs)
  show ?case
  proof (cases "a = p")
    case True
    with Cons.prems have "p \<notin> set xs" by simp
    with Cons.prems have "\<forall>x \<in> set xs. f x = []" by auto
    then have "concat (map f xs) = []" by simp
    with True show ?thesis by simp
  next
    case False
    with Cons show ?thesis by auto
  qed
qed

lemma included_geo_distinct: "distinct included_geo"
  by (simp add: included_geo_def)

lemma cpi_prov_years: "r \<in> set (cpi_prov cpi) \<Longrightarrow> 1978 \<le> Year r"
  by (auto simp: cpi_prov_def Let_def key_def)

lemma cpi_prov_at:
  "filter (\<lambda>r. key r = (y, p)) (cpi_prov cpi) =
     (if p \<in> set included_geo \<and> 1978 \<le> y \<and> (\<exists>r \<in> set cpi. Province r = p \<and> Year r = y)
      then [\<lparr>Year = y, Province = p, Sector = (),
             CPI_index = mean_skipna (map VALUE (filter (\<lambda>r. Province r = p \<and> Year r = y) cpi))\<rparr>]
      else [])"
proof -
  let ?sel = "filter (\<lambda>r. Province r \<in> set included_geo \<and> 1978 \<le> Year r) cpi"
  let ?f = "\<lambda>k. \<lparr>Year = fst k, Province = snd k, Sector = (),
                    CPI_index = mean_skipna (map VALUE (filter (\<lambda>r. key r = k) ?sel))\<rparr>"
  have "filter (\<lambda>r. key r = (y, p)) (map ?f (sort (remdups (map key ?sel)))) =
      (if (y, p) \<in> set (sort (remdups (map key ?sel))) then [?f (y, p)] else [])"
    by (rule filter_map_key) (simp_all add: key_def)
  moreover have "(y, p) \<in> set (sort (remdups (map key ?sel))) \<longleftrightarrow>
      p \<in> set included_geo \<and> 1978 \<le> y \<and> (\<exists>r \<in> set cpi. Province r = p \<and> Year r = y)"
    by (auto simp: key_def)
  moreover have "filter (\<lambda>r. key r = (y, p)) ?sel = filter (\<lambda>r. Province r = p \<and> Year r = y) cpi"
    if "p \<in> set included_geo" "1978 \<le> y"
    using that by (auto simp: key_def intro: filter_cong)
  ultimately show ?thesis by (simp add: cpi_prov_def Let_def)
qed

lemma cpi_canada_avg_at:
  "filter (\<lambda>(y', v). y' = y) (cpi_canada_avg cpi) =
     (if between 1975 1977 y \<and> (\<exists>r \<in> set cpi. GEO r = ''Canada'' \<and> Year r = y)
      then [(y, mean_skipna (map VALUE (filter (\<lambda>r. GEO r = ''Canada'' \<and> Year r = y) cpi)))]
      else [])"
proof -
  let ?sel = "filter (\<lambda>r. GEO r = ''Canada'' \<and> between 1975 1977 (Year r)) cpi"
  let ?f = "\<lambda>y. (y, mean_skipna (map VALUE (filter (\<lambda>r. Year r = y) ?sel)))"
  have "filter (\<lambda>x. fst x = y) (map ?f (sort (remdups (map Year ?sel)))) =
      (if y \<in> set (sort (remdups (map Year ?sel))) then [?f y] else [])"
    by (rule filter_map_key) simp_all
  moreover have "y \<in> set (sort (remdups (map Year ?sel))) \<longleftrightarrow>
      between 1975 1977 y \<and> (\<exists>r \<in> set cpi. GEO r = ''Canada'' \<and> Year r = y)"
    by auto
  moreover have "filter (\<lambda>r. Year r = y) ?sel = filter (\<lambda>r. GEO r = ''Canada'' \<and> Year r = y) cpi"
    if "between 1975 1977 y"
    using that by (auto intro: filter_cong)
  moreover have "(\<lambda>(y', v :: fval). y' = y) = (\<lambda>x. fst x = y)" by auto
  ultimately show ?thesis by (simp add: cpi_canada_avg_def Let_def)
qed

lemma cpi_backfill_years_at:
  assumes "between 1975 1977 y"
  shows "filter (\<lambda>(y', v). y' = y) (cpi_backfill_years cpi) =
     (if \<exists>r \<in> set cpi. GEO r = ''Canada'' \<and> Year r = y
      then [(y, mean_skipna (map VALUE (filter (\<lambda>r. GEO r = ''Canada'' \<and> Year r = y) cpi)))]
      else [])"
proof -
  have "filter (\<lambda>(y', v). y' = y)
      (map (\<lambda>(y, v). (1974, v)) (filter (\<lambda>(y, v). y = 1975) (cpi_canada_avg cpi))) = []"
    using assms by (auto simp: filter_empty_conv between_def)
  then show ?thesis
    using assms by (simp add: cpi_backfill_years_def Let_def cpi_canada_avg_at)
qed

lemma cpi_backfill_years_range: "(y, v) \<in> set (cpi_backfill_years cpi) \<Longrightarrow> between 1974 1977 y"
  by (auto simp: cpi_backfill_years_def cpi_canada_avg_def Let_def between_def)

lemma cpi_backfilled_years: "r \<in> set (cpi_backfilled cpi) \<Longrightarrow> between 1974 1977 (Year r)"
  by (auto simp: cpi_backfilled_def dest: cpi_backfill_years_range)

lemma cpi_backfilled_at:
  assumes "between 1975 1977 y" and "p \<in> set included_geo"
  shows "filter (\<lambda>r. key r = (y, p)) (cpi_backfilled cpi) =
     (if \<exists>r \<in> set cpi. GEO r = ''Canada'' \<and> Year r = y
      then [\<lparr>Year = y, Province = p, Sector = (),
             CPI_index = mean_skipna (map VALUE (filter (\<lambda>r. GEO r = ''Canada'' \<and> Year r = y) cpi))\<rparr>]
      else [])"
proof -
  let ?row = "\<lambda>prov. \<lambda>(y, v). \<lparr>Year = y, Province = prov, Sector = (), CPI_index = v\<rparr>"
  let ?g = "\<lambda>prov. filter (\<lambda>r. key r = (y, p)) (map (?row prov) (cpi_backfill_years cpi))"
  have other: "?g prov = []" if "prov \<noteq> p" for prov
    using that by (auto simp: filter_empty_conv key_def)
  have own: "?g p = map (?row p) (filter (\<lambda>(y', v). y' = y) (cpi_backfill_years cpi))"
    by (simp add: filter_map comp_def key_def case_prod_unfold)
  have "filter (\<lambda>r. key r = (y, p)) (cpi_backfilled cpi) = concat (map ?g included_geo)"
    by (simp add: cpi_backfilled_def filter_concat_map comp_def)
  also have "\<dots> = (if p \<in> set included_geo then ?g p else [])"
    by (rule concat_map_single) (simp_all add: included_geo_distinct other)
  also have "\<dots> = ?g p" using assms(2) by simp
  finally show ?thesis
    by (simp add: own cpi_backfill_years_at [OF assms(1)])
qed

text \<open>
  C8, amended. For a year of 1975 to 1977 and an admitted province, the final table has
  exactly one row when the input has a national (\<open>Canada\<close>) all-items observation
  for that year, and its index is the mean of that year's national all-items
  observations, the same for every province; it has no row otherwise. For a year from
  1978 on it has exactly one row when the input has an all-items observation of that
  province in that year, with the mean of these, and no row otherwise. (A mean skips
  missing observations.)
\<close>

theorem cpi_final_rows:
  "(between 1975 1977 y \<and> p \<in> set included_geo \<longrightarrow>
      filter (\<lambda>r. key r = (y, p)) (cpi_final raw) =
        (if \<exists>r \<in> set (cpi_all_items raw). GEO r = ''Canada'' \<and> Year r = y
         then [\<lparr>Year = y, Province = p, Sector = (),
                CPI_index = mean_skipna (map VALUE
                  (filter (\<lambda>r. GEO r = ''Canada'' \<and> Year r = y) (cpi_all_items raw)))\<rparr>]
         else [])) \<and>
   (1978 \<le> y \<and> p \<in> set included_geo \<longrightarrow>
      filter (\<lambda>r. key r = (y, p)) (cpi_final raw) =
        (if \<exists>r \<in> set (cpi_all_items raw). Province r = p \<and> Year r = y
         then [\<lparr>Year = y, Province = p, Sector = (),
                CPI_index = mean_skipna (map VALUE
                  (filter (\<lambda>r. Province r = p \<and> Year r = y) (cpi_all_items raw)))\<rparr>]
         else []))"
proof (intro conjI impI)
  assume a: "between 1975 1977 y \<and> p \<in> set included_geo"
  then have "filter (\<lambda>r. key r = (y, p)) (cpi_prov (cpi_all_items raw)) = []"
    by (auto simp: filter_empty_conv key_def between_def dest: cpi_prov_years)
  with a show "filter (\<lambda>r. key r = (y, p)) (cpi_final raw) =
        (if \<exists>r \<in> set (cpi_all_items raw). GEO r = ''Canada'' \<and> Year r = y
         then [\<lparr>Year = y, Province = p, Sector = (),
                CPI_index = mean_skipna (map VALUE
                  (filter (\<lambda>r. GEO r = ''Canada'' \<and> Year r = y) (cpi_all_items raw)))\<rparr>]
         else [])"
    by (simp add: cpi_final_def Let_def cpi_backfilled_at)
next
  assume a: "1978 \<le> y \<and> p \<in> set included_geo"
  then have "filter (\<lambda>r. key r = (y, p)) (cpi_backfilled (cpi_all_items raw)) = []"
    by (auto simp: filter_empty_conv key_def between_def dest: cpi_backfilled_years)
  with a show "filter (\<lambda>r. key r = (y, p)) (cpi_final raw) =
        (if \<exists>r \<in> set (cpi_all_items raw). Province r = p \<and> Year r = y
         then [\<lparr>Year = y, Province = p, Sector = (),
                CPI_index = mean_skipna (map VALUE
                  (filter (\<lambda>r. Province r = p \<and> Year r = y) (cpi_all_items raw)))\<rparr>]
         else [])"
    by (simp add: cpi_final_def Let_def cpi_prov_at)
qed

text \<open>
  C8. As stated (every admitted province has an index that is not missing for every year
  1975 to 1995) the claim fails on a table that lacks observations: with national rows
  for 1975 only and provincial rows for Alberta in 1980 only, Ontario has no row for
  1980 and Alberta has none for 1976.
\<close>

theorem cpi_final_incomplete_counterexample:
  "''Ontario'' \<in> set included_geo \<and> between 1975 1995 1980 \<and>
   \<not> (\<exists>r \<in> set (cpi_final cpi_raw_demo). key r = (1980, ''Ontario'') \<and> \<not> isna (CPI_index r)) \<and>
   filter (\<lambda>r. key r = (1980, ''Ontario'')) (cpi_final cpi_raw_demo) = [] \<and>
   filter (\<lambda>r. key r = (1976, ''Alberta'')) (cpi_final cpi_raw_demo) = []"
  by code_simp

theorem cpi_final_rows_witness:
  "between 1975 1977 1975 \<and> ''Alberta'' \<in> set included_geo \<and> (1978::int) \<le> 1980 \<and>
   filter (\<lambda>r. key r = (1975, ''Alberta'')) (cpi_final cpi_raw_demo) =
     [\<lparr>Year = 1975, Province = ''Alberta'', Sector = (), CPI_index = Fin 42\<rparr>] \<and>
   filter (\<lambda>r. key r = (1975, ''Quebec'')) (cpi_final cpi_raw_demo) =
     [\<lparr>Year = 1975, Province = ''Quebec'', Sector = (), CPI_index = Fin 42\<rparr>] \<and>
   filter (\<lambda>r. key r = (1980, ''Alberta'')) (cpi_final cpi_raw_demo) =
     [\<lparr>Year = 1980, Province = ''Alberta'', Sector = (), CPI_index = Fin 89\<rparr>]"
proof -
  have b: "between 1975 1977 1975" by (simp add: between_def)
  have ab: "''Alberta'' \<in> set included_geo" and qc: "''Quebec'' \<in> set included_geo"
    by (simp_all add: included_geo_def)
  have ex: "\<exists>r \<in> set (cpi_all_items cpi_raw_demo). GEO r = ''Canada'' \<and> Year r = 1975"
    by code_simp
  have m: "mean_skipna (map VALUE
      (filter (\<lambda>r. GEO r = ''Canada'' \<and> Year r = 1975) (cpi_all_items cpi_raw_demo))) = Fin 42"
    by code_simp
  have ex80: "\<exists>r \<in> set (cpi_all_items cpi_raw_demo). Province r = ''Alberta'' \<and> Year r = 1980"
    by code_simp
  have m80: "mean_skipna (map VALUE
      (filter (\<lambda>r. Province r = ''Alberta'' \<and> Year r = 1980) (cpi_all_items cpi_raw_demo))) = Fin 89"
    by code_simp
  from cpi_final_rows [of 1975 "''Alberta''" cpi_raw_demo] b ab ex m
  have r1: "filter (\<lambda>r. key r = (1975, ''Alberta'')) (cpi_final cpi_raw_demo) =
     [\<lparr>Year = 1975, Province = ''Alberta'', Sector = (), CPI_index = Fin 42\<rparr>]"
    by simp
  from cpi_final_rows [of 1975 "''Quebec''" cpi_raw_demo] b qc ex m
  have r2: "filter (\<lambda>r. key r = (1975, ''Quebec'')) (cpi_final cpi_raw_demo) =
     [\<lparr>Year = 1975, Province = ''Quebec'', Sector = (), CPI_index = Fin 42\<rparr>]"
    by simp
  from cpi_final_rows [of 1980 "''Alberta''" cpi_raw_demo] ab ex80 m80
  have r3: "filter (\<lambda>r. key r = (1980, ''Alberta'')) (cpi_final cpi_raw_demo) =
     [\<lparr>Year = 1980, Province = ''Alberta'', Sector = (), CPI_index = Fin 89\<rparr>]"
    by simp
  from b ab r1 r2 r3 show ?thesis by simp
qed

subsection \<open>Compensation allocation\<close>




















subsection \<open>Total GDP, 1981 to 1995\<close>

lemma filter_drop_duplicates_seen:
  "filter (\<lambda>x. f x = k) (drop_duplicates_seen f seen xs) =
     (if k \<in> set seen then [] else take 1 (filter (\<lambda>x. f x = k) xs))"
proof (induction xs arbitrary: seen)
  case Nil
  then show ?case by simp
next
  case (Cons x xs)
  then show ?case by auto
qed

lemma filter_drop_duplicates:
  "filter (\<lambda>x. f x = k) (drop_duplicates f xs) = take 1 (filter (\<lambda>x. f x = k) xs)"
  by (simp add: drop_duplicates_def filter_drop_duplicates_seen)

lemma drop_duplicates_seen_keys:
  "set (map f (drop_duplicates_seen f seen xs)) \<inter> set seen = {} \<and>
   distinct (map f (drop_duplicates_seen f seen xs))"
proof (induction xs arbitrary: seen)
  case Nil
  then show ?case by simp
next
  case (Cons x xs)
  from Cons [of seen] Cons [of "f x # seen"] show ?case by auto
qed

lemma drop_duplicates_distinct: "distinct (map f (drop_duplicates f xs))"
  by (simp add: drop_duplicates_def drop_duplicates_seen_keys)

text \<open>
  C2. When the table has a concept column and a price column, the function returns a
  table with one row for each key, and the rows of a key are the first of: the real-basis
  rows of the key in their order, followed by the deflated-current rows of the key. So
  whenever a real-basis row exists for a key, the output row of the key is the first
  real-basis row, as reported, and no deflated-current row of the key is kept: the real
  partition is concatenated first, the sort on year and province is stable, and the
  first row of each key is kept.
\<close>

theorem total_gdp_prefers_real:
  assumes "find_col cols [''income-based estimates'', ''estimates''] = Some concept_col"
    and "find_col cols [''prices''] = Some price_col"
  shows "\<exists>out. build_total_gdp_81_95 cols df90 cpi = Inr out \<and>
     distinct (map key out) \<and>
     (\<forall>k. filter (\<lambda>r. key r = k) out =
        take 1 (filter (\<lambda>r. key r = k) (part_real (total_slice df90)) @
                filter (\<lambda>r. key r = k) (part_curr (total_slice df90) cpi))) \<and>
     (\<forall>k. filter (\<lambda>r. key r = k) (part_real (total_slice df90)) \<noteq> [] \<longrightarrow>
        filter (\<lambda>r. key r = k) out =
          [hd (filter (\<lambda>r. key r = k) (part_real (total_slice df90)))])"
proof -
  let ?real = "part_real (total_slice df90)"
  let ?curr = "part_curr (total_slice df90) cpi"
  let ?out = "drop_duplicates key (sort_key key (?real @ ?curr))"
  have out: "build_total_gdp_81_95 cols df90 cpi = Inr ?out"
    using assms by (simp add: build_total_gdp_81_95_def Let_def)
  have at: "filter (\<lambda>r. key r = k) ?out =
      take 1 (filter (\<lambda>r. key r = k) ?real @ filter (\<lambda>r. key r = k) ?curr)" for k
    by (simp add: filter_drop_duplicates sort_key_stable)
  have first: "filter (\<lambda>r. key r = k) ?out = [hd (filter (\<lambda>r. key r = k) ?real)]"
    if "filter (\<lambda>r. key r = k) ?real \<noteq> []" for k
    using that by (cases "filter (\<lambda>r. key r = k) ?real") (simp_all add: at)
  from out at first drop_duplicates_distinct [of key "sort_key key (?real @ ?curr)"]
  show ?thesis by blast
qed

theorem total_gdp_prefers_real_witness:
  "find_col total_cols_demo [''income-based estimates'', ''estimates''] = Some ''Estimates'' \<and>
   find_col total_cols_demo [''prices''] = Some ''Prices'' \<and>
   filter (\<lambda>r. key r = (1985, ''Alberta''))
     (part_curr (total_slice (add_dollar_value (apply_geo_filter raw_total_demo))) cpi_total_demo) =
     [\<lparr>Year = 1985, Province = ''Alberta'', Sector = (), GDP_Real_Total = Fin 40\<rparr>] \<and>
   (\<exists>out. build_total_gdp_81_95 total_cols_demo
             (add_dollar_value (apply_geo_filter raw_total_demo)) cpi_total_demo = Inr out \<and>
      filter (\<lambda>r. key r = (1985, ''Alberta'')) out =
        [\<lparr>Year = 1985, Province = ''Alberta'', Sector = (), GDP_Real_Total = Fin 100\<rparr>])"
proof -
  let ?df = "add_dollar_value (apply_geo_filter raw_total_demo)"
  have c: "find_col total_cols_demo [''income-based estimates'', ''estimates''] = Some ''Estimates''"
    by code_simp
  have p: "find_col total_cols_demo [''prices''] = Some ''Prices''"
    by code_simp
  have cur: "filter (\<lambda>r. key r = (1985, ''Alberta'')) (part_curr (total_slice ?df) cpi_total_demo) =
     [\<lparr>Year = 1985, Province = ''Alberta'', Sector = (), GDP_Real_Total = Fin 40\<rparr>]"
    by code_simp
  have re: "filter (\<lambda>r. key r = (1985, ''Alberta'')) (part_real (total_slice ?df)) =
     [\<lparr>Year = 1985, Province = ''Alberta'', Sector = (), GDP_Real_Total = Fin 100\<rparr>]"
    by code_simp
  from total_gdp_prefers_real [OF c p, of ?df cpi_total_demo] obtain out where
    out: "build_total_gdp_81_95 total_cols_demo ?df cpi_total_demo = Inr out"
    and pref: "\<forall>k. filter (\<lambda>r. key r = k) (part_real (total_slice ?df)) \<noteq> [] \<longrightarrow>
        filter (\<lambda>r. key r = k) out = [hd (filter (\<lambda>r. key r = k) (part_real (total_slice ?df)))]"
    by blast
  from pref re have "filter (\<lambda>r. key r = (1985, ''Alberta'')) out =
      [\<lparr>Year = 1985, Province = ''Alberta'', Sector = (), GDP_Real_Total = Fin 100\<rparr>]"
    by simp
  with c p cur out show ?thesis by blast
qed

subsection \<open>Sector-level panel\<close>

lemma filter_key_le1:
  "distinct (map fst tbl) \<Longrightarrow> length (filter (\<lambda>(k, vs). k = x) tbl) \<le> 1"
proof (induction tbl)
  case Nil
  then show ?case by simp
next
  case (Cons r tbl)
  obtain k v where r: "r = (k, v)" by (cases r)
  show ?case
  proof (cases "k = x")
    case True
    with Cons.prems r have "x \<notin> fst ` set tbl" by simp
    then have "filter (\<lambda>(k, vs). k = x) tbl = []" by (force simp: filter_empty_conv)
    with True r show ?thesis by simp
  next
    case False
    with Cons r show ?thesis by simp
  qed
qed

lemma join_cols_anchor:
  assumes "distinct (map fst tbl)"
  shows "map fst (join_cols n kf tbl rows) = map fst rows"
proof (induction rows)
  case Nil
  then show ?case by (simp add: join_cols_def)
next
  case (Cons r rows)
  obtain s cells where r: "r = (s, cells)" by (cases r)
  have "length (filter (\<lambda>(k, vs). k = kf s) tbl) \<le> 1"
    using assms by (rule filter_key_le1)
  then have "map fst (case filter (\<lambda>(k, vs). k = kf s) tbl of
                        [] \<Rightarrow> [(s, cells @ replicate n NaN)]
                      | ms \<Rightarrow> map (\<lambda>(k, vs). (s, cells @ vs)) ms) = [s]"
    by (cases "filter (\<lambda>(k, vs). k = kf s) tbl") (auto split: prod.splits)
  with Cons r show ?case by (simp add: join_cols_def)
qed

lemma one_col_keys: "map fst (one_col tbl) = map fst tbl"
  by (simp add: one_col_def case_prod_unfold comp_def)

lemma apply_geo_filter_province:
  "r \<in> set (apply_geo_filter df) \<Longrightarrow> Province r \<in> set included_geo"
  by (auto simp: apply_geo_filter_def)

lemma add_dollar_value_province:
  "Province ` set (add_dollar_value df) = Province ` set df"
  by (auto simp: add_dollar_value_def image_iff)

lemma sector_pre_province:
  "r \<in> set (sector_pre gdp80 cpi ind) \<Longrightarrow> Province r \<in> Province ` set gdp80"
  by (erule sector_pre_source) (auto dest: extract_nominal_block_province)

lemma sector_post_province:
  "r \<in> set (sector_post gdp90 ind) \<Longrightarrow> Province r \<in> Province ` set gdp90"
  by (auto simp: sector_post_def dest: extract_real_block_province)

lemma build_sector_domain:
  assumes "build_sector gdp80 gdp90 cpi sector_key label = Inr out" and "r \<in> set out"
  shows "between 1975 1995 (Year r) \<and> Province r \<in> Province ` (set gdp80 \<union> set gdp90)"
proof -
  from assms(1) obtain ind where
    out: "out = map (with_sector label) (sector_pre gdp80 cpi ind @ sector_post gdp90 ind)"
    by (auto simp: build_sector_def split: option.splits)
  with assms(2) obtain r0 where
    r0: "r0 \<in> set (sector_pre gdp80 cpi ind) \<or> r0 \<in> set (sector_post gdp90 ind)"
    and r: "r = with_sector label r0"
    by (auto simp del: map_append)
  from r have yp: "Year r = Year r0" "Province r = Province r0"
    by (simp_all add: with_sector_def)
  from r0 show ?thesis
  proof
    assume a: "r0 \<in> set (sector_pre gdp80 cpi ind)"
    from sector_pre_years [OF a] sector_pre_province [OF a] yp show ?thesis
      by (auto simp: between_def)
  next
    assume a: "r0 \<in> set (sector_post gdp90 ind)"
    from sector_post_years [OF a] sector_post_province [OF a] yp show ?thesis
      by (auto simp: between_def)
  qed
qed

lemma collect_Inr:
  "collect rs = Inr xs \<Longrightarrow> x \<in> set xs \<Longrightarrow> \<exists>ys. Inr ys \<in> set rs \<and> x \<in> set ys"
proof (induction rs arbitrary: xs)
  case Nil
  then show ?case by simp
next
  case (Cons r rs)
  show ?case
  proof (cases r)
    case (Inl e)
    with Cons.prems show ?thesis by simp
  next
    case (Inr ys)
    with Cons.prems obtain zs where zs: "collect rs = Inr zs" "xs = ys @ zs"
      by (auto split: sum.splits)
    with Cons.prems(2) have "x \<in> set ys \<or> x \<in> set zs" by simp
    then show ?thesis
    proof
      assume "x \<in> set ys"
      with Inr show ?thesis by auto
    next
      assume "x \<in> set zs"
      from Cons.IH [OF zs(1) this] show ?thesis by auto
    qed
  qed
qed

lemma gdp_sectors_returns: "\<exists>gs. gdp_sectors raw80 raw90 cpi = Inr gs"
  by (simp add: gdp_sectors_def Let_def build_sector_def SECTORS_def)

lemma gdp_sectors_domain:
  assumes "gdp_sectors raw80 raw90 cpi = Inr gs" and "r \<in> set gs"
  shows "between 1975 1995 (Year r) \<and> Province r \<in> set included_geo"
proof -
  let ?g80 = "add_dollar_value (apply_geo_filter raw80)"
  let ?g90 = "add_dollar_value (apply_geo_filter raw90)"
  from assms have "\<exists>ys. Inr ys \<in> set [build_sector ?g80 ?g90 cpi ''OIL_GAS'' ''OIL_GAS'',
            build_sector ?g80 ?g90 cpi ''REFINING'' ''REFINING'',
            build_sector ?g80 ?g90 cpi ''AGRIC'' ''AGRIC'',
            build_sector ?g80 ?g90 cpi ''FISH'' ''FISH'',
            build_sector ?g80 ?g90 cpi ''MANUFACT'' ''MANUFACT'',
            build_sector ?g80 ?g90 cpi ''EDU'' ''EDU''] \<and> r \<in> set ys"
    unfolding gdp_sectors_def Let_def by (rule collect_Inr)
  then obtain ys where
    ys: "Inr ys \<in> set [build_sector ?g80 ?g90 cpi ''OIL_GAS'' ''OIL_GAS'',
            build_sector ?g80 ?g90 cpi ''REFINING'' ''REFINING'',
            build_sector ?g80 ?g90 cpi ''AGRIC'' ''AGRIC'',
            build_sector ?g80 ?g90 cpi ''FISH'' ''FISH'',
            build_sector ?g80 ?g90 cpi ''MANUFACT'' ''MANUFACT'',
            build_sector ?g80 ?g90 cpi ''EDU'' ''EDU'']" and r: "r \<in> set ys"
    by blast
  from ys have "\<exists>sk lb. build_sector ?g80 ?g90 cpi sk lb = Inr ys"
    unfolding set_simps insert_iff empty_iff by (elim disjE) (metis, metis, metis, metis, metis, metis, simp)
  then obtain sk lb where "build_sector ?g80 ?g90 cpi sk lb = Inr ys"
    by blast
  from build_sector_domain [OF this r]
  have y: "between 1975 1995 (Year r)" and p: "Province r \<in> Province ` (set ?g80 \<union> set ?g90)"
    by simp_all
  from p have "Province r \<in> Province ` set (apply_geo_filter raw80) \<union>
      Province ` set (apply_geo_filter raw90)"
    by (simp add: image_Un add_dollar_value_province)
  with y show ?thesis by (auto dest: apply_geo_filter_province)
qed

lemma unique_set: "set (unique xs) = set xs"
  by (simp add: unique_def)

lemma unique_distinct: "distinct (unique xs)"
  by (simp add: unique_def)

lemma gdp_sectors_dedup_source:
  "r \<in> set (gdp_sectors_dedup rows) \<Longrightarrow> \<exists>r0 \<in> set rows. Year r = Year r0 \<and> Province r = Province r0"
  by (auto simp: gdp_sectors_dedup_def unique_set key3_def)

lemma gdp_sectors_dedup_keys: "map key3 (gdp_sectors_dedup rows) = unique (map key3 rows)"
proof -
  have "key3 \<lparr>Year = fst k, Province = fst (snd k), Sector = snd (snd k), GDP_Real = v\<rparr> = k"
    for k :: "int \<times> string \<times> string" and v
    by (simp add: key3_def)
  then show ?thesis
    by (simp add: gdp_sectors_dedup_def comp_def map_idI)
qed

lemma gdp_sectors_dedup_distinct: "distinct (map key3 (gdp_sectors_dedup rows))"
  by (simp add: gdp_sectors_dedup_keys unique_distinct)

lemma us_cad_keys1: "map fst (map (\<lambda>(y, u, l, d). (y, [u])) us_cad) = map fst us_cad"
  by (simp add: case_prod_unfold comp_def)

lemma us_cad_keys2: "map fst (map (\<lambda>(y, u, l, d). (y, [l, d])) us_cad) = map fst us_cad"
  by (simp add: case_prod_unfold comp_def)

lemma join_one_col_anchor:
  "distinct (map fst tbl) \<Longrightarrow> map fst (join_cols n kf (one_col tbl) rows) = map fst rows"
  by (rule join_cols_anchor) (simp only: one_col_keys)

lemma panel_query_anchor:
  assumes "distinct (map fst comp_sct)" "distinct (map fst gdp_tot)" "distinct (map fst comp_tot)"
    "distinct (map fst employment)" "distinct (map fst population)" "distinct (map fst bank_rate)"
    "distinct (map fst wti)" "distinct (map fst coal)" "distinct (map fst chem)"
    "distinct (map fst wheat)" "distinct (map fst us_cad)"
  shows "map fst (panel_query anchor comp_sct gdp_tot comp_tot employment population bank_rate
           wti coal chem wheat us_cad) = anchor"
proof -
  have us: "distinct (map fst (map (\<lambda>(y, u, l, d). (y, [u])) us_cad))"
    using assms(11) by (simp only: us_cad_keys1)
  have start: "map fst (map (\<lambda>s. (s, [])) anchor) = anchor"
    by (simp add: comp_def)
  show ?thesis
    unfolding panel_query_def
    by (simp only: join_cols_anchor [OF us] join_one_col_anchor [OF assms(10)]
        join_one_col_anchor [OF assms(9)] join_one_col_anchor [OF assms(8)]
        join_one_col_anchor [OF assms(7)] join_one_col_anchor [OF assms(6)]
        join_one_col_anchor [OF assms(5)] join_one_col_anchor [OF assms(4)]
        join_one_col_anchor [OF assms(3)] join_one_col_anchor [OF assms(2)]
        join_one_col_anchor [OF assms(1)] start)
qed

text \<open>
  C6. The anchor is the sector GDP table the script builds and deduplicates (it always
  builds one). When each of the eleven joined tables has at most one row for each of its
  keys, the sector-level panel, after all joins and the domain lock, consists of the
  anchor rows, each exactly once with its joined cells, so it has as many rows as the
  anchor: the years and provinces of the anchor lie within the locked domain by
  construction, and no join drops or repeats an anchor row.
\<close>

theorem panel_keeps_anchor:
  assumes "distinct (map fst comp_sct)" "distinct (map fst gdp_tot)" "distinct (map fst comp_tot)"
    "distinct (map fst employment)" "distinct (map fst population)" "distinct (map fst bank_rate)"
    "distinct (map fst wti)" "distinct (map fst coal)" "distinct (map fst chem)"
    "distinct (map fst wheat)" "distinct (map fst us_cad)"
  shows "\<exists>gs. gdp_sectors raw80 raw90 cpi = Inr gs \<and>
     map fst (panel_df (gdp_sectors_dedup gs) comp_sct gdp_tot comp_tot employment population
                bank_rate wti coal chem wheat us_cad) = gdp_sectors_dedup gs \<and>
     length (panel_df (gdp_sectors_dedup gs) comp_sct gdp_tot comp_tot employment population
                bank_rate wti coal chem wheat us_cad) = length (gdp_sectors_dedup gs)"
proof -
  obtain gs where gs: "gdp_sectors raw80 raw90 cpi = Inr gs"
    using gdp_sectors_returns by blast
  let ?anchor = "gdp_sectors_dedup gs"
  let ?q = "panel_query ?anchor comp_sct gdp_tot comp_tot employment population bank_rate
              wti coal chem wheat us_cad"
  let ?m = "join_cols 2 Year (map (\<lambda>(y, u, l, d). (y, [l, d])) us_cad) ?q"
  let ?c = "map (\<lambda>(s, cells).
                     (s, cells @ [fmul (cells ! 6) (cells ! 10), fmul (cells ! 7) (cells ! 10),
                                  fmul (cells ! 8) (cells ! 10), fmul (cells ! 9) (cells ! 10)])) ?m"
  have q: "map fst ?q = ?anchor"
    using assms by (rule panel_query_anchor)
  have us2: "distinct (map fst (map (\<lambda>(y, u, l, d). (y, [l, d])) us_cad))"
    using assms(11) by (simp only: us_cad_keys2)
  have m: "map fst ?m = ?anchor"
    by (simp only: join_cols_anchor [OF us2] q)
  have "map fst ?c = map fst ?m"
    by (simp add: comp_def case_prod_unfold)
  with m have c: "map fst ?c = ?anchor" by simp
  have dom: "between 1975 1995 (Year s) \<and> Province s \<in> set included_geo" if "s \<in> set ?anchor" for s
  proof -
    from gdp_sectors_dedup_source [OF that] obtain r0 where
      "r0 \<in> set gs" "Year s = Year r0" "Province s = Province r0" by blast
    with gdp_sectors_domain [OF gs, of r0] show ?thesis by simp
  qed
  have "\<forall>x \<in> set ?c. (\<lambda>(s, cells). between 1975 1995 (Year s) \<and> Province s \<in> set included_geo) x"
  proof
    fix x assume x: "x \<in> set ?c"
    then have "fst x \<in> set (map fst ?c)" by (simp del: map_map)
    with c have "fst x \<in> set ?anchor" by simp
    from dom [OF this] show "(\<lambda>(s, cells). between 1975 1995 (Year s) \<and> Province s \<in> set included_geo) x"
      by (simp add: case_prod_unfold)
  qed
  then have "filter (\<lambda>(s, cells). between 1975 1995 (Year s) \<and> Province s \<in> set included_geo) ?c = ?c"
    by (simp only: filter_True)
  then have p: "panel_df ?anchor comp_sct gdp_tot comp_tot employment population
                bank_rate wti coal chem wheat us_cad = ?c"
    by (simp add: panel_df_def Let_def)
  have "map fst (panel_df ?anchor comp_sct gdp_tot comp_tot employment population
                bank_rate wti coal chem wheat us_cad) = ?anchor"
    unfolding p by (rule c)
  moreover from this have "length (panel_df ?anchor comp_sct gdp_tot comp_tot employment population
                bank_rate wti coal chem wheat us_cad) = length ?anchor"
    by (metis length_map)
  ultimately show ?thesis using gs by blast
qed

theorem panel_keeps_anchor_witness:
  "distinct (map fst comp_sct_demo) \<and> distinct (map fst gdp_tot_demo) \<and>
   distinct (map fst bank_rate_demo) \<and> distinct (map fst us_cad_demo) \<and>
   (\<exists>gs. gdp_sectors raw80_demo raw90_demo cpi_demo = Inr gs \<and>
      map key3 (gdp_sectors_dedup gs) =
        [(1983, ''Alberta'', ''OIL_GAS''), (1984, ''Alberta'', ''OIL_GAS'')] \<and>
      map (key3 \<circ> fst) (panel_df (gdp_sectors_dedup gs) comp_sct_demo gdp_tot_demo [] [] []
          bank_rate_demo [] [] [] [] us_cad_demo) =
        [(1983, ''Alberta'', ''OIL_GAS''), (1984, ''Alberta'', ''OIL_GAS'')] \<and>
      length (panel_df (gdp_sectors_dedup gs) comp_sct_demo gdp_tot_demo [] [] []
          bank_rate_demo [] [] [] [] us_cad_demo) = 2)"
proof -
  have d1: "distinct (map fst comp_sct_demo)" by (simp add: comp_sct_demo_def)
  have d2: "distinct (map fst gdp_tot_demo)" by (simp add: gdp_tot_demo_def)
  have d3: "distinct (map fst bank_rate_demo)" by (simp add: bank_rate_demo_def)
  have d4: "distinct (map fst us_cad_demo)" by (simp add: us_cad_demo_def)
  have e2: "distinct (map fst ([] :: ((int \<times> string) \<times> fval) list))" by simp
  have e1: "distinct (map fst ([] :: (int \<times> fval) list))" by simp
  from panel_keeps_anchor [OF d1 d2 e2 e2 e2 d3 e1 e1 e1 e1 d4, of raw80_demo raw90_demo cpi_demo]
  obtain gs where gs: "gdp_sectors raw80_demo raw90_demo cpi_demo = Inr gs"
    and rows: "map fst (panel_df (gdp_sectors_dedup gs) comp_sct_demo gdp_tot_demo [] [] []
          bank_rate_demo [] [] [] [] us_cad_demo) = gdp_sectors_dedup gs"
    and len: "length (panel_df (gdp_sectors_dedup gs) comp_sct_demo gdp_tot_demo [] [] []
          bank_rate_demo [] [] [] [] us_cad_demo) = length (gdp_sectors_dedup gs)"
    by blast
  have "map key3 (gdp_sectors_dedup (projr (gdp_sectors raw80_demo raw90_demo cpi_demo))) =
      [(1983, ''Alberta'', ''OIL_GAS''), (1984, ''Alberta'', ''OIL_GAS'')]"
    by code_simp
  with gs have keys: "map key3 (gdp_sectors_dedup gs) =
      [(1983, ''Alberta'', ''OIL_GAS''), (1984, ''Alberta'', ''OIL_GAS'')]"
    by simp
  from keys have l2: "length (gdp_sectors_dedup gs) = 2"
    by (metis length_map length_Cons list.size(3) numeral_2_eq_2)
  from rows have "map (key3 \<circ> fst) (panel_df (gdp_sectors_dedup gs) comp_sct_demo gdp_tot_demo [] [] []
          bank_rate_demo [] [] [] [] us_cad_demo) = map key3 (gdp_sectors_dedup gs)"
    by (metis map_map)
  with keys len l2 gs d1 d2 d3 d4 show ?thesis by auto
qed

end
